theory Spec2Isabelle
  imports Complex_Main
begin

section \<open>The timer engine of the Odoo timesheet extension\<close>

text \<open>
  A shallow embedding of \<^verbatim>\<open>src/services/timerService.ts\<close> (class \<^verbatim>\<open>TimerService\<close>) and of
  \<^verbatim>\<open>getRunningTimer\<close> of \<^verbatim>\<open>src/odoo/timesheet.ts\<close>.

  Conventions of the model:
  \<^item> A JavaScript number is a \<open>number\<close>: a finite double, an infinity or NaN. The answers
    of the backend (hours, seconds) are finite doubles, held as the reals they denote; every
    arithmetic operation of the code rounds its exact result to the nearest double
    (\<open>double\<close>). Zero has no sign. Record ids and epoch milliseconds are integers.
  \<^item> A \<^verbatim>\<open>Date\<close> is its time value in whole milliseconds, or the Invalid Date.
  \<^item> \<^verbatim>\<open>null\<close> and \<^verbatim>\<open>undefined\<close> are \<open>None\<close>; a thrown \<^verbatim>\<open>Error\<close> is \<open>Inl\<close> of its message.
  \<^item> Every answer of the outside world to one operation (the clock, the session, the remote
    calls) is a field of the record \<open>env\<close>; what the operation does to the outside world is
    the list of \<open>event\<close>s it returns, in program order.
  \<^item> \<^verbatim>\<open>callback(this.state)\<close> hands the engine's own object to the observer, so an observer
    is the function from the contents of that object before the call to its contents after.
  \<^item> The callers start \<^verbatim>\<open>saveState()\<close> and \<^verbatim>\<open>clearState()\<close> without awaiting them. Such a
    call issues its first update at once and is then suspended; the engine keeps it in
    \<open>pending\<close>, and \<open>resume\<close> lets the oldest suspended call issue its next update.
\<close>

subsection \<open>Numbers and dates\<close>

datatype number = Fin real | PosInf | NegInf | NaN

text \<open>Rounding to the nearest integer, ties to the even one.\<close>

definition round_even :: "real \<Rightarrow> int" where
  "round_even y =
     (let f = \<lfloor>y\<rfloor>; d = y - real_of_int f
      in if d < 1 / 2 then f else if 1 / 2 < d then f + 1 else if even f then f else f + 1)"

definition huge :: real where
  "huge = 2 powr 1024"

text \<open>
  The double nearest to a real: 53 significant bits, ties to even, the exponent not below
  that of the subnormal numbers, and an infinity when the rounded value reaches \<open>2^1024\<close>.
\<close>

definition double :: "real \<Rightarrow> number" where
  "double x =
     (if x = 0 then Fin 0
      else
        (let e = max \<lfloor>log 2 \<bar>x\<bar>\<rfloor> (- 1022);
             u = 2 powr real_of_int (e - 52);
             r = real_of_int (round_even (x / u)) * u
         in if huge \<le> \<bar>r\<bar> then (if 0 < x then PosInf else NegInf) else Fin r))"

fun sign_of :: "number \<Rightarrow> real" where
  "sign_of (Fin x) = sgn x"
| "sign_of PosInf = 1"
| "sign_of NegInf = - 1"
| "sign_of NaN = 0"

definition infinity_of :: "real \<Rightarrow> number" where
  "infinity_of s = (if 0 < s then PosInf else if s < 0 then NegInf else NaN)"

fun js_minus :: "number \<Rightarrow> number \<Rightarrow> number" where
  "js_minus (Fin x) (Fin y) = double (x - y)"
| "js_minus NaN _ = NaN"
| "js_minus _ NaN = NaN"
| "js_minus (Fin _) b = infinity_of (- sign_of b)"
| "js_minus a (Fin _) = a"
| "js_minus a b = (if a = b then NaN else a)"

fun js_times :: "number \<Rightarrow> number \<Rightarrow> number" where
  "js_times (Fin x) (Fin y) = double (x * y)"
| "js_times NaN _ = NaN"
| "js_times _ NaN = NaN"
| "js_times a b = infinity_of (sign_of a * sign_of b)"

fun js_divide :: "number \<Rightarrow> number \<Rightarrow> number" where
  "js_divide (Fin x) (Fin y) = (if y = 0 then infinity_of x else double (x / y))"
| "js_divide NaN _ = NaN"
| "js_divide _ NaN = NaN"
| "js_divide (Fin _) _ = Fin 0"
| "js_divide a (Fin y) = infinity_of (sign_of a * (if y < 0 then - 1 else 1))"
| "js_divide _ _ = NaN"

fun js_abs :: "number \<Rightarrow> number" where
  "js_abs (Fin x) = Fin \<bar>x\<bar>"
| "js_abs PosInf = PosInf"
| "js_abs NegInf = PosInf"
| "js_abs NaN = NaN"

fun js_gt :: "number \<Rightarrow> number \<Rightarrow> bool" where
  "js_gt (Fin x) (Fin y) = (y < x)"
| "js_gt NaN _ = False"
| "js_gt _ NaN = False"
| "js_gt PosInf b = (b \<noteq> PosInf)"
| "js_gt NegInf _ = False"
| "js_gt (Fin _) b = (b = NegInf)"

datatype Date = Date int | Invalid_Date

text \<open>
  \<^verbatim>\<open>new Date(value)\<close>: no time value beyond 8.64e15 ms in either direction, and the fraction
  of a millisecond is cut off.
\<close>

fun new_Date :: "number \<Rightarrow> Date" where
  "new_Date (Fin x) =
     (if 8640000000000000 < \<bar>x\<bar> then Invalid_Date
      else Date (if 0 \<le> x then \<lfloor>x\<rfloor> else \<lceil>x\<rceil>))"
| "new_Date _ = Invalid_Date"

fun getTime :: "Date \<Rightarrow> number" where
  "getTime (Date t) = Fin (real_of_int t)"
| "getTime Invalid_Date = NaN"

subsection \<open>Data\<close>

type_synonym error = string

record TimesheetEntry =
  id' :: "int option"
  name :: string
  date :: string
  unit_amount :: real
  project_id :: "int option"
  task_id :: "int option"
  employee_id :: "int option"
  account_id :: "int option"
  user_id :: "int option"
  running_seconds :: "real option"

record TimerState =
  isRunning :: bool
  startTime :: "Date option"
  entryId :: "int option"
  entry :: "TimesheetEntry option"

datatype stored = SNull | SNum int | SNaN | SStr string

type_synonym Memento = "string \<Rightarrow> stored option"

datatype Timeout = Timeout

text \<open>
  A call of \<^verbatim>\<open>saveState\<close> or \<^verbatim>\<open>clearState\<close> that is suspended at an \<^verbatim>\<open>await\<close>: \<open>n\<close> updates
  after the first one are issued already.
\<close>

datatype job = Saving nat | Clearing nat

record TimerService =
  state :: TimerState
  updateCallbacks :: "(TimerState \<Rightarrow> TimerState) list"
  intervalId :: "Timeout option"
  context' :: "Memento option"
  pending :: "job list"

record OdooSession =
  uid :: int

record running_result =
  r_id :: "int option"
  r_start :: "real option"
  r_project_id :: "int option"
  r_task_id :: "int option"

record env =
  now :: int
  today :: string
  session :: "OdooSession option"
  create_answer :: "TimesheetEntry \<Rightarrow> error + int"
  timer_start_answer :: "int \<Rightarrow> error + bool"
  timer_stop_answer :: "int \<Rightarrow> bool \<Rightarrow> error + bool"
  read_answer :: "int \<Rightarrow> error + TimesheetEntry option"
  running_answer :: "error + running_result option"

datatype remote_call =
  Create TimesheetEntry
  | ActionTimerStart int
  | ActionTimerStop int bool
  | ReadEntry int
  | GetRunningTimer

datatype message =
  Warning string
  | ErrorMessage string
  | TimerStopped string real "number option"
  | ConsoleError string error

datatype event =
  Remote remote_call
  | Shown message
  | Notified TimerState
  | Update string "stored option"

record outcome =
  returned :: bool
  service :: TimerService
  events :: "event list"

subsection \<open>Construction and subscription\<close>

definition stopped :: TimerState where
  "stopped = \<lparr>isRunning = False, startTime = None, entryId = None, entry = None\<rparr>"

definition TimerService_new :: "Memento option \<Rightarrow> TimerService" where
  "TimerService_new ctx =
     \<lparr>state = stopped, updateCallbacks = [], intervalId = None, context' = ctx,
      pending = []\<rparr>"

definition onStateUpdate :: "(TimerState \<Rightarrow> TimerState) \<Rightarrow> TimerService \<Rightarrow> TimerService" where
  "onStateUpdate callback s = s\<lparr>updateCallbacks := updateCallbacks s @ [callback]\<rparr>"

text \<open>
  \<^verbatim>\<open>updateCallbacks.forEach(callback => callback(this.state))\<close>: each observer receives the
  object the previous one left behind.
\<close>

fun forEach :: "(TimerState \<Rightarrow> TimerState) list \<Rightarrow> TimerState \<Rightarrow> TimerState \<times> event list" where
  "forEach [] st = (st, [])"
| "forEach (callback # rest) st =
     (case forEach rest (callback st) of (st', evs) \<Rightarrow> (st', Notified st # evs))"

definition notifyStateUpdate :: "TimerService \<Rightarrow> TimerService \<times> event list" where
  "notifyStateUpdate s =
     (case forEach (updateCallbacks s) (state s) of (st', evs) \<Rightarrow> (s\<lparr>state := st'\<rparr>, evs))"

text \<open>
  \<^verbatim>\<open>getState\<close> returns \<^verbatim>\<open>{ ...this.state }\<close>, a copy of the four fields: what the caller
  writes into the copy does not reach the engine.
\<close>

definition getState :: "TimerService \<Rightarrow> TimerState" where
  "getState s = state s"

definition read_only :: "(TimerState \<Rightarrow> TimerState) \<Rightarrow> bool" where
  "read_only callback \<longleftrightarrow> (\<forall>st. callback st = st)"

subsection \<open>The one-second tick\<close>

definition stopUpdateInterval :: "TimerService \<Rightarrow> TimerService" where
  "stopUpdateInterval s = (if intervalId s \<noteq> None then s\<lparr>intervalId := None\<rparr> else s)"

definition startUpdateInterval :: "TimerService \<Rightarrow> TimerService" where
  "startUpdateInterval s =
     (let s1 = stopUpdateInterval s
      in if isRunning (state s1) then s1\<lparr>intervalId := Some Timeout\<rparr> else s1)"

text \<open>One firing of the interval; nothing fires when no interval is installed.\<close>

definition tick :: "TimerService \<Rightarrow> TimerService \<times> event list" where
  "tick s =
     (if intervalId s = None then (s, [])
      else if isRunning (state s) \<and> startTime (state s) \<noteq> None then notifyStateUpdate s
      else (stopUpdateInterval s, []))"

fun ticks :: "nat \<Rightarrow> TimerService \<Rightarrow> TimerService \<times> event list" where
  "ticks 0 s = (s, [])"
| "ticks (Suc n) s =
     (case tick s of (s1, evs1) \<Rightarrow> (case ticks n s1 of (s2, evs2) \<Rightarrow> (s2, evs1 @ evs2)))"

definition dispose :: "TimerService \<Rightarrow> TimerService" where
  "dispose s = (stopUpdateInterval s)\<lparr>updateCallbacks := []\<rparr>"

subsection \<open>Elapsed time\<close>

text \<open>\<^verbatim>\<open>Date.now()\<close> is a whole number of milliseconds.\<close>

definition Date_now :: "env \<Rightarrow> number" where
  "Date_now e = Fin (real_of_int (now e))"

definition getElapsedHours :: "env \<Rightarrow> TimerService \<Rightarrow> number" where
  "getElapsedHours e s =
     (case startTime (state s) of
        None \<Rightarrow> Fin 0
      | Some t \<Rightarrow> if \<not> isRunning (state s) then Fin 0
                  else js_divide (js_minus (Date_now e) (getTime t)) (Fin (1000 * 60 * 60)))"

subsection \<open>The persisted snapshot\<close>

definition update :: "string \<Rightarrow> stored option \<Rightarrow> Memento \<Rightarrow> Memento" where
  "update key v m = m(key := v)"

text \<open>The five keys, in the order in which \<^verbatim>\<open>saveState\<close> and \<^verbatim>\<open>clearState\<close> write them.\<close>

definition timer_keys :: "string list" where
  "timer_keys =
     [''timer_entryId'', ''timer_startTime'', ''timer_projectId'', ''timer_taskId'',
      ''timer_description'']"

text \<open>
  What \<^verbatim>\<open>saveState\<close> writes under a key, read from the state at the moment of the write:
  \<^verbatim>\<open>this.state.entryId\<close>, \<^verbatim>\<open>this.state.startTime?.getTime()\<close>, \<^verbatim>\<open>this.state.entry?.project_id\<close>,
  \<^verbatim>\<open>this.state.entry?.task_id\<close> and \<^verbatim>\<open>this.state.entry?.name\<close>.
\<close>

definition stored_time :: "Date \<Rightarrow> stored" where
  "stored_time d = (case d of Date t \<Rightarrow> SNum t | Invalid_Date \<Rightarrow> SNaN)"

definition field_value :: "TimerState \<Rightarrow> string \<Rightarrow> stored option" where
  "field_value st key =
     (if key = ''timer_entryId'' then
        Some (case entryId st of None \<Rightarrow> SNull | Some i \<Rightarrow> SNum i)
      else if key = ''timer_startTime'' then map_option stored_time (startTime st)
      else if key = ''timer_projectId'' then map_option SNum (Option.bind (entry st) project_id)
      else if key = ''timer_taskId'' then map_option SNum (Option.bind (entry st) task_id)
      else if key = ''timer_description'' then map_option (\<lambda>en. SStr (name en)) (entry st)
      else None)"

definition saveState :: "TimerService \<Rightarrow> TimerService \<times> event list" where
  "saveState s =
     (case context' s of
        None \<Rightarrow> (s, [])
      | Some m \<Rightarrow>
          (s\<lparr>context' := Some (update ''timer_entryId'' (field_value (state s) ''timer_entryId'') m),
             pending := pending s @ [Saving 0]\<rparr>,
           [Update ''timer_entryId'' (field_value (state s) ''timer_entryId'')]))"

definition clearState :: "TimerService \<Rightarrow> TimerService \<times> event list" where
  "clearState s =
     (case context' s of
        None \<Rightarrow> (s, [])
      | Some m \<Rightarrow>
          (s\<lparr>context' := Some (update ''timer_entryId'' None m),
             pending := pending s @ [Clearing 0]\<rparr>,
           [Update ''timer_entryId'' None]))"

text \<open>The keys a suspended call has still to write, and the value it writes under one.\<close>

fun remaining :: "job \<Rightarrow> string list" where
  "remaining (Saving n) = drop (Suc n) timer_keys"
| "remaining (Clearing n) = drop (Suc n) timer_keys"

fun job_value :: "TimerState \<Rightarrow> job \<Rightarrow> string \<Rightarrow> stored option" where
  "job_value st (Saving n) key = field_value st key"
| "job_value st (Clearing n) key = None"

fun advance :: "job \<Rightarrow> job" where
  "advance (Saving n) = Saving (Suc n)"
| "advance (Clearing n) = Clearing (Suc n)"

text \<open>
  One resumption of the oldest suspended call: it issues its next update, or returns when no
  key is left.
\<close>

definition resume :: "TimerService \<Rightarrow> TimerService" where
  "resume s =
     (case pending s of
        [] \<Rightarrow> s
      | j # rest \<Rightarrow>
          (case remaining j of
             [] \<Rightarrow> s\<lparr>pending := rest\<rparr>
           | key # _ \<Rightarrow>
               s\<lparr>context' := map_option (update key (job_value (state s) j key)) (context' s),
                 pending := advance j # rest\<rparr>))"

text \<open>
  All suspended calls run to their end, the older call first: the store once every write
  that was started is done.
\<close>

definition run_job :: "TimerState \<Rightarrow> job \<Rightarrow> Memento \<Rightarrow> Memento" where
  "run_job st j m = fold (\<lambda>key. update key (job_value st j key)) (remaining j) m"

definition settle :: "TimerService \<Rightarrow> TimerService" where
  "settle s =
     s\<lparr>context' := map_option (fold (run_job (state s)) (pending s)) (context' s),
       pending := []\<rparr>"

text \<open>
  \<^verbatim>\<open>workspaceState.get<number>(key)\<close> and \<^verbatim>\<open>get<string>(key)\<close>. Only \<open>saveState\<close> and
  \<open>clearState\<close> write these keys, so a number key holds a whole number, NaN, \<^verbatim>\<open>null\<close> or
  nothing; \<open>loadState\<close> goes on only with a truthy value, which is a whole number.
\<close>

definition get_number :: "Memento \<Rightarrow> string \<Rightarrow> int option" where
  "get_number m key = (case m key of Some (SNum n) \<Rightarrow> Some n | _ \<Rightarrow> None)"

definition get_string :: "Memento \<Rightarrow> string \<Rightarrow> string option" where
  "get_string m key = (case m key of Some (SStr x) \<Rightarrow> Some x | _ \<Rightarrow> None)"

definition truthy :: "int option \<Rightarrow> bool" where
  "truthy v = (case v of None \<Rightarrow> False | Some n \<Rightarrow> n \<noteq> 0)"

subsection \<open>The remote calls\<close>

text \<open>
  \<^verbatim>\<open>createTimesheetEntry\<close> sends the name, the date, the amount and those optional ids that
  are truthy.
\<close>

definition sent :: "int option \<Rightarrow> int option" where
  "sent v = (if truthy v then v else None)"

definition create_values :: "TimesheetEntry \<Rightarrow> TimesheetEntry" where
  "create_values en =
     \<lparr>id' = None, name = name en, date = date en, unit_amount = unit_amount en,
      project_id = sent (project_id en), task_id = sent (task_id en),
      employee_id = sent (employee_id en), account_id = sent (account_id en),
      user_id = sent (user_id en), running_seconds = None\<rparr>"

definition createTimesheetEntry :: "env \<Rightarrow> TimesheetEntry \<Rightarrow> (error + int) \<times> event list" where
  "createTimesheetEntry e en =
     (create_answer e (create_values en), [Remote (Create (create_values en))])"

text \<open>
  \<^verbatim>\<open>getTimesheetEntry\<close> (the read call followed by \<^verbatim>\<open>mapToTimesheetEntry\<close>) is taken as a whole:
  its outcome is \<open>read_answer\<close>.
\<close>

definition getTimesheetEntry :: "env \<Rightarrow> int \<Rightarrow> (error + TimesheetEntry option) \<times> event list" where
  "getTimesheetEntry e i = (read_answer e i, [Remote (ReadEntry i)])"

definition getRunningTimer :: "env \<Rightarrow> (error + TimesheetEntry option) \<times> event list" where
  "getRunningTimer e =
     (case running_answer e of
        Inl err \<Rightarrow> (Inl err, [Remote GetRunningTimer])
      | Inr None \<Rightarrow> (Inr None, [Remote GetRunningTimer])
      | Inr (Some result) \<Rightarrow>
          (if truthy (r_id result) then
             (case getTimesheetEntry e (the (r_id result)) of
                (Inl err, evs) \<Rightarrow> (Inl err, Remote GetRunningTimer # evs)
              | (Inr None, evs) \<Rightarrow> (Inr None, Remote GetRunningTimer # evs)
              | (Inr (Some en), evs) \<Rightarrow>
                  (Inr (Some (en\<lparr>running_seconds :=
                                   Some (case r_start result of None \<Rightarrow> 0 | Some x \<Rightarrow> x),
                                 project_id := r_project_id result,
                                 task_id := r_task_id result\<rparr>)),
                   Remote GetRunningTimer # evs))
           else (Inr None, [Remote GetRunningTimer])))"

subsection \<open>start\<close>

definition start_failed :: "TimerService \<Rightarrow> event list \<Rightarrow> error \<Rightarrow> outcome" where
  "start_failed s evs err =
     \<lparr>returned = False, service = s,
      events = evs @ [Shown (ErrorMessage (''Failed to start timer: '' @ err))]\<rparr>"

text \<open>The object literal \<^verbatim>\<open>entry\<close> that \<^verbatim>\<open>startTimer\<close> builds before the remote calls.\<close>

definition new_entry :: "env \<Rightarrow> string \<Rightarrow> int option \<Rightarrow> int option \<Rightarrow> OdooSession \<Rightarrow> TimesheetEntry" where
  "new_entry e nm projectId taskId sess =
     \<lparr>id' = None, name = nm, date = today e, unit_amount = 0,
      project_id = projectId, task_id = taskId, employee_id = None,
      account_id = None, user_id = Some (uid sess), running_seconds = None\<rparr>"

definition startTimer :: "env \<Rightarrow> string \<Rightarrow> int option \<Rightarrow> int option \<Rightarrow> TimerService \<Rightarrow> outcome" where
  "startTimer e nm projectId taskId s =
     (if isRunning (state s) then
        \<lparr>returned = False, service = s, events = [Shown (Warning ''Timer is already running'')]\<rparr>
      else
        (case session e of
           None \<Rightarrow> start_failed s [] ''Not authenticated''
         | Some sess \<Rightarrow>
             (let en = new_entry e nm projectId taskId sess
              in case createTimesheetEntry e en of
                   (Inl err, evs1) \<Rightarrow> start_failed s evs1 err
                 | (Inr i, evs1) \<Rightarrow>
                     (case timer_start_answer e i of
                        Inl err \<Rightarrow> start_failed s (evs1 @ [Remote (ActionTimerStart i)]) err
                      | Inr _ \<Rightarrow>
                          (let s1 = s\<lparr>state := \<lparr>isRunning = True, startTime = Some (Date (now e)),
                                                 entryId = Some i,
                                                 entry = Some (en\<lparr>id' := Some i\<rparr>)\<rparr>\<rparr>
                           in case saveState s1 of (s2, evs2) \<Rightarrow>
                                (case notifyStateUpdate (startUpdateInterval s2) of (s3, evs3) \<Rightarrow>
                                   \<lparr>returned = True, service = s3,
                                    events = evs1 @ [Remote (ActionTimerStart i)] @ evs2 @ evs3\<rparr>))))))"

subsection \<open>stop\<close>

definition stop_failed :: "TimerService \<Rightarrow> event list \<Rightarrow> error \<Rightarrow> outcome" where
  "stop_failed s evs err =
     \<lparr>returned = False, service = s,
      events = evs @ [Shown (ErrorMessage (''Failed to stop timer: '' @ err))]\<rparr>"

text \<open>
  The information message keeps the holes of its template as values: the entry name, the
  duration the server reports, and the locally elapsed hours when the note is appended.
\<close>

definition stop_message :: "string \<Rightarrow> real \<Rightarrow> number \<Rightarrow> message" where
  "stop_message entryName duration actualElapsed =
     TimerStopped entryName duration
       (if 0 < duration \<and> js_gt actualElapsed (Fin 0) \<and>
           js_gt (js_abs (js_minus (Fin duration) actualElapsed)) (double (1 / 10))
        then Some actualElapsed else None)"

definition stopTimer :: "env \<Rightarrow> TimerService \<Rightarrow> outcome" where
  "stopTimer e s =
     (if \<not> isRunning (state s) \<or> \<not> truthy (entryId (state s)) then
        \<lparr>returned = False, service = s, events = [Shown (Warning ''No timer is running'')]\<rparr>
      else
        (let i = the (entryId (state s))
         in case timer_stop_answer e i False of
              Inl err \<Rightarrow> stop_failed s [Remote (ActionTimerStop i False)] err
            | Inr _ \<Rightarrow>
                (case getTimesheetEntry e i of
                   (Inl err, evs1) \<Rightarrow> stop_failed s (Remote (ActionTimerStop i False) # evs1) err
                 | (Inr updatedEntry, evs1) \<Rightarrow>
                     (let duration = (case updatedEntry of None \<Rightarrow> 0 | Some en \<Rightarrow> unit_amount en);
                          actualElapsed = getElapsedHours e s;
                          entryName = (case entry (state s) of
                                         None \<Rightarrow> ''Timer''
                                       | Some en \<Rightarrow> if name en = [] then ''Timer'' else name en);
                          msg = stop_message entryName duration actualElapsed
                      in case clearState (s\<lparr>state := stopped\<rparr>) of (s2, evs2) \<Rightarrow>
                           (case notifyStateUpdate (stopUpdateInterval s2) of (s3, evs3) \<Rightarrow>
                              \<lparr>returned = True, service = s3,
                               events = Remote (ActionTimerStop i False) # evs1 @ [Shown msg]
                                        @ evs2 @ evs3\<rparr>)))))"

definition note_of :: "event \<Rightarrow> bool" where
  "note_of ev = (case ev of Shown (TimerStopped _ _ (Some _)) \<Rightarrow> True | _ \<Rightarrow> False)"

definition note_produced :: "event list \<Rightarrow> bool" where
  "note_produced evs = list_ex note_of evs"

subsection \<open>reconcile\<close>

definition back_computed :: "env \<Rightarrow> TimesheetEntry \<Rightarrow> Date" where
  "back_computed e runningTimer =
     (let runningSeconds = Fin (case running_seconds runningTimer of None \<Rightarrow> 0 | Some x \<Rightarrow> x);
          currentSeconds = (if unit_amount runningTimer \<noteq> 0
                            then js_times (Fin (unit_amount runningTimer)) (Fin 3600)
                            else Fin 0);
          elapsedSeconds = js_minus runningSeconds currentSeconds
      in new_Date (js_minus (Date_now e) (js_times elapsedSeconds (Fin 1000))))"

text \<open>The object literal that \<^verbatim>\<open>refreshState\<close> assigns to \<^verbatim>\<open>this.state\<close> for a running timer.\<close>

definition running_state :: "env \<Rightarrow> TimesheetEntry \<Rightarrow> TimerState" where
  "running_state e runningTimer =
     \<lparr>isRunning = True, startTime = Some (back_computed e runningTimer),
      entryId = id' runningTimer, entry = Some runningTimer\<rparr>"

definition refreshState :: "env \<Rightarrow> TimerService \<Rightarrow> TimerService \<times> event list" where
  "refreshState e s =
     (let s0 = stopUpdateInterval s
      in case getRunningTimer e of
           (Inl err, evs1) \<Rightarrow>
             (stopUpdateInterval s0,
              evs1 @ [Shown (ConsoleError ''Failed to refresh timer state:'' err)])
         | (Inr None, evs1) \<Rightarrow>
             (if isRunning (state s0) then
                (case clearState (s0\<lparr>state := stopped\<rparr>) of (s2, evs2) \<Rightarrow>
                   (case notifyStateUpdate (stopUpdateInterval s2) of (s3, evs3) \<Rightarrow>
                      (s3, evs1 @ evs2 @ evs3)))
              else (s0, evs1))
         | (Inr (Some runningTimer), evs1) \<Rightarrow>
             (if truthy (id' runningTimer) then
                (let s1 = s0\<lparr>state := \<lparr>isRunning = True,
                                        startTime = Some (back_computed e runningTimer),
                                        entryId = id' runningTimer,
                                        entry = Some runningTimer\<rparr>\<rparr>
                 in case saveState s1 of (s2, evs2) \<Rightarrow>
                      (case notifyStateUpdate (startUpdateInterval s2) of (s3, evs3) \<Rightarrow>
                         (s3, evs1 @ evs2 @ evs3)))
              else if isRunning (state s0) then
                (case clearState (s0\<lparr>state := stopped\<rparr>) of (s2, evs2) \<Rightarrow>
                   (case notifyStateUpdate (stopUpdateInterval s2) of (s3, evs3) \<Rightarrow>
                      (s3, evs1 @ evs2 @ evs3)))
              else (s0, evs1)))"

subsection \<open>load\<close>

definition loadState :: "env \<Rightarrow> TimerService \<Rightarrow> outcome" where
  "loadState e s =
     (case context' s of
        None \<Rightarrow> \<lparr>returned = False, service = s, events = []\<rparr>
      | Some m \<Rightarrow>
          (let entryId' = get_number m ''timer_entryId'';
               startTimeMs = get_number m ''timer_startTime'';
               projectId = get_number m ''timer_projectId'';
               taskId = get_number m ''timer_taskId'';
               description = get_string m ''timer_description''
           in if truthy entryId' \<and> truthy startTimeMs then
                (case getRunningTimer e of
                   (Inl err, evs1) \<Rightarrow>
                     (case clearState s of (s1, evs2) \<Rightarrow>
                        \<lparr>returned = False, service = s1, events = evs1 @ evs2\<rparr>)
                 | (Inr runningTimer, evs1) \<Rightarrow>
                     (if runningTimer \<noteq> None \<and> id' (the runningTimer) = entryId' then
                        (let s1 = s\<lparr>state :=
                                     \<lparr>isRunning = True,
                                      startTime = Some (new_Date (Fin (real_of_int (the startTimeMs)))),
                                      entryId = entryId',
                                      entry = Some
                                        \<lparr>id' = entryId',
                                         name = (case description of None \<Rightarrow> [] | Some d \<Rightarrow> d),
                                         date = today e, unit_amount = 0,
                                         project_id = projectId, task_id = taskId,
                                         employee_id = None, account_id = None,
                                         user_id = None, running_seconds = None\<rparr>\<rparr>\<rparr>
                         in case notifyStateUpdate (startUpdateInterval s1) of (s2, evs2) \<Rightarrow>
                              \<lparr>returned = True, service = s2, events = evs1 @ evs2\<rparr>)
                      else \<lparr>returned = False, service = s, events = evs1\<rparr>))
              else \<lparr>returned = False, service = s, events = []\<rparr>))"

subsection \<open>Reachable engines\<close>

text \<open>
  The engines that construction and any sequence of operations produce, whatever the outside
  world answers and whatever the observers do with the object they are handed.
\<close>

inductive reachable :: "TimerService \<Rightarrow> bool" where
  r_new: "reachable (TimerService_new ctx)"
| r_subscribe: "reachable s \<Longrightarrow> reachable (onStateUpdate callback s)"
| r_start: "reachable s \<Longrightarrow> reachable (service (startTimer e nm projectId taskId s))"
| r_stop: "reachable s \<Longrightarrow> reachable (service (stopTimer e s))"
| r_refresh: "reachable s \<Longrightarrow> reachable (fst (refreshState e s))"
| r_load: "reachable s \<Longrightarrow> reachable (service (loadState e s))"
| r_tick: "reachable s \<Longrightarrow> reachable (fst (tick s))"
| r_resume: "reachable s \<Longrightarrow> reachable (resume s)"
| r_dispose: "reachable s \<Longrightarrow> reachable (dispose s)"

text \<open>
  The same, with observers that only read their argument, as the status bar, the tree view
  and the panel of the repository do.
\<close>

inductive reachable_passive :: "TimerService \<Rightarrow> bool" where
  p_new: "reachable_passive (TimerService_new ctx)"
| p_subscribe: "reachable_passive s \<Longrightarrow> read_only callback \<Longrightarrow>
     reachable_passive (onStateUpdate callback s)"
| p_start: "reachable_passive s \<Longrightarrow> reachable_passive (service (startTimer e nm projectId taskId s))"
| p_stop: "reachable_passive s \<Longrightarrow> reachable_passive (service (stopTimer e s))"
| p_refresh: "reachable_passive s \<Longrightarrow> reachable_passive (fst (refreshState e s))"
| p_load: "reachable_passive s \<Longrightarrow> reachable_passive (service (loadState e s))"
| p_tick: "reachable_passive s \<Longrightarrow> reachable_passive (fst (tick s))"
| p_resume: "reachable_passive s \<Longrightarrow> reachable_passive (resume s)"
| p_dispose: "reachable_passive s \<Longrightarrow> reachable_passive (dispose s)"

definition state_ok :: "TimerState \<Rightarrow> bool" where
  "state_ok st \<longleftrightarrow>
     (isRunning st \<longleftrightarrow> startTime st \<noteq> None \<and> entryId st \<noteq> None) \<and>
     (\<not> isRunning st \<longrightarrow> startTime st = None \<and> entryId st = None \<and> entry st = None)"

subsection \<open>Reading the events of an operation\<close>

definition notified :: "event list \<Rightarrow> TimerState list" where
  "notified evs = concat (map (\<lambda>ev. case ev of Notified st \<Rightarrow> [st] | _ \<Rightarrow> []) evs)"

definition written :: "event list \<Rightarrow> (string \<times> stored option) list" where
  "written evs = concat (map (\<lambda>ev. case ev of Update key v \<Rightarrow> [(key, v)] | _ \<Rightarrow> []) evs)"

definition remote_calls :: "event list \<Rightarrow> remote_call list" where
  "remote_calls evs = concat (map (\<lambda>ev. case ev of Remote c \<Rightarrow> [c] | _ \<Rightarrow> []) evs)"

subsection \<open>Concrete worlds for the examples\<close>

text \<open>
  A backend that accepts every call, creates record 42, reads it back with the given
  amount of hours, and reports the given running timer; the clock shows \<open>t\<close>.
\<close>

definition read_back :: "real \<Rightarrow> int \<Rightarrow> TimesheetEntry" where
  "read_back hours i =
     \<lparr>id' = Some i, name = ''Task A'', date = ''2024-01-01'', unit_amount = hours,
      project_id = Some 5, task_id = Some 10, employee_id = None, account_id = None,
      user_id = Some 2, running_seconds = None\<rparr>"

definition world :: "int \<Rightarrow> real \<Rightarrow> (error + running_result option) \<Rightarrow> env" where
  "world t hours running =
     \<lparr>now = t, today = ''2024-01-01'', session = Some \<lparr>uid = 2\<rparr>,
      create_answer = (\<lambda>_. Inr 42),
      timer_start_answer = (\<lambda>_. Inr True),
      timer_stop_answer = (\<lambda>_ _. Inr True),
      read_answer = (\<lambda>i. Inr (Some (read_back hours i))),
      running_answer = running\<rparr>"

definition reports :: "int \<Rightarrow> real \<Rightarrow> error + running_result option" where
  "reports i secs =
     Inr (Some \<lparr>r_id = Some i, r_start = Some secs, r_project_id = Some 5, r_task_id = Some 10\<rparr>)"

text \<open>The double that a decimal literal or a number of a JSON answer denotes.\<close>

definition lit :: "real \<Rightarrow> real" where
  "lit x = (case double x of Fin r \<Rightarrow> r | _ \<Rightarrow> 0)"

text \<open>An observer that only reads, and two that write into the object they are handed.\<close>

definition reader :: "TimerState \<Rightarrow> TimerState" where
  "reader st = st"

definition meddler :: "TimerState \<Rightarrow> TimerState" where
  "meddler st = st\<lparr>isRunning := False, entryId := Some 99\<rparr>"

definition retagger :: "TimerState \<Rightarrow> TimerState" where
  "retagger st = st\<lparr>entry := map_option (\<lambda>en. en\<lparr>project_id := Some 7\<rparr>) (entry st)\<rparr>"

definition tracking :: TimerService where
  "tracking =
     \<lparr>state = \<lparr>isRunning = True, startTime = Some (Date 1000), entryId = Some 42,
               entry = Some (read_back 0 42)\<rparr>,
      updateCallbacks = [reader], intervalId = Some Timeout, context' = None,
      pending = []\<rparr>"

text \<open>The snapshot that a completed \<open>saveState\<close> leaves for the state of \<open>tracking\<close>.\<close>

definition snapshot :: Memento where
  "snapshot =
     [''timer_entryId'' \<mapsto> SNum 42, ''timer_startTime'' \<mapsto> SNum 1000,
      ''timer_projectId'' \<mapsto> SNum 5, ''timer_taskId'' \<mapsto> SNum 10,
      ''timer_description'' \<mapsto> SStr ''Task A'']"

subsection \<open>Invariant of the engines with read-only observers\<close>

definition observed :: "TimerService \<Rightarrow> bool" where
  "observed s \<longleftrightarrow> (\<forall>cb\<in>set (updateCallbacks s). read_only cb)"

definition engine_ok :: "TimerService \<Rightarrow> bool" where
  "engine_ok s \<longleftrightarrow> state_ok (state s) \<and> observed s"


section \<open>Properties\<close>

subsection \<open>Frame lemmas\<close>

lemma forEach_read_only:
  "\<forall>cb\<in>set cbs. read_only cb \<Longrightarrow> forEach cbs st = (st, map (\<lambda>_. Notified st) cbs)"
  by (induction cbs) (auto simp: read_only_def)

lemma notifyStateUpdate_read_only:
  "\<forall>cb\<in>set (updateCallbacks s). read_only cb \<Longrightarrow>
   notifyStateUpdate s = (s, map (\<lambda>_. Notified (state s)) (updateCallbacks s))"
  by (simp add: notifyStateUpdate_def forEach_read_only)

lemma notifyStateUpdate_frame:
  "state (fst (notifyStateUpdate s)) = fst (forEach (updateCallbacks s) (state s)) \<and>
   updateCallbacks (fst (notifyStateUpdate s)) = updateCallbacks s \<and>
   intervalId (fst (notifyStateUpdate s)) = intervalId s \<and>
   context' (fst (notifyStateUpdate s)) = context' s \<and>
   pending (fst (notifyStateUpdate s)) = pending s \<and>
   snd (notifyStateUpdate s) = snd (forEach (updateCallbacks s) (state s))"
  by (simp add: notifyStateUpdate_def prod.case_eq_if)

lemma saveState_frame:
  "state (fst (saveState s)) = state s \<and>
   updateCallbacks (fst (saveState s)) = updateCallbacks s \<and>
   intervalId (fst (saveState s)) = intervalId s"
  by (simp add: saveState_def split: option.splits)

lemma clearState_frame:
  "state (fst (clearState s)) = state s \<and>
   updateCallbacks (fst (clearState s)) = updateCallbacks s \<and>
   intervalId (fst (clearState s)) = intervalId s"
  by (simp add: clearState_def split: option.splits)

lemma saveState_store:
  "context' (fst (saveState s)) =
     map_option (update ''timer_entryId'' (field_value (state s) ''timer_entryId'')) (context' s) \<and>
   pending (fst (saveState s)) =
     (if context' s = None then pending s else pending s @ [Saving 0])"
  by (simp add: saveState_def split: option.splits)

lemma clearState_store:
  "context' (fst (clearState s)) = map_option (update ''timer_entryId'' None) (context' s) \<and>
   pending (fst (clearState s)) =
     (if context' s = None then pending s else pending s @ [Clearing 0])"
  by (simp add: clearState_def split: option.splits)

lemma stopUpdateInterval_frame:
  "state (stopUpdateInterval s) = state s \<and>
   updateCallbacks (stopUpdateInterval s) = updateCallbacks s \<and>
   context' (stopUpdateInterval s) = context' s \<and>
   pending (stopUpdateInterval s) = pending s \<and>
   intervalId (stopUpdateInterval s) = None"
  by (simp add: stopUpdateInterval_def)

lemma startUpdateInterval_frame:
  "state (startUpdateInterval s) = state s \<and>
   updateCallbacks (startUpdateInterval s) = updateCallbacks s \<and>
   context' (startUpdateInterval s) = context' s \<and>
   pending (startUpdateInterval s) = pending s \<and>
   intervalId (startUpdateInterval s) = (if isRunning (state s) then Some Timeout else None)"
  by (simp add: startUpdateInterval_def Let_def stopUpdateInterval_def)

lemma resume_frame:
  "state (resume s) = state s \<and> updateCallbacks (resume s) = updateCallbacks s \<and>
   intervalId (resume s) = intervalId s"
  by (simp add: resume_def split: list.splits)

lemma observed_frames:
  "observed (fst (saveState s)) = observed s"
  "observed (fst (clearState s)) = observed s"
  "observed (stopUpdateInterval s) = observed s"
  "observed (startUpdateInterval s) = observed s"
  "observed (resume s) = observed s"
  "observed (s\<lparr>state := st\<rparr>) = observed s"
  by (simp_all add: observed_def saveState_frame clearState_frame stopUpdateInterval_frame
                    startUpdateInterval_frame resume_frame)

lemma notify_observed: "observed s \<Longrightarrow> fst (notifyStateUpdate s) = s"
  by (simp add: observed_def notifyStateUpdate_read_only)

lemma truthy_Some: "truthy v \<Longrightarrow> v \<noteq> None"
  by (cases v) (simp_all add: truthy_def)

lemma installed:
  assumes "observed s"
  shows "state (fst (notifyStateUpdate (startUpdateInterval (fst (saveState (s\<lparr>state := st\<rparr>)))))) = st"
    and "observed (fst (notifyStateUpdate (startUpdateInterval (fst (saveState (s\<lparr>state := st\<rparr>))))))"
proof -
  let ?s2 = "startUpdateInterval (fst (saveState (s\<lparr>state := st\<rparr>)))"
  have o: "observed ?s2"
    using assms by (simp add: observed_frames)
  have "state ?s2 = st"
    by (simp add: startUpdateInterval_frame saveState_frame)
  then show "state (fst (notifyStateUpdate ?s2)) = st" "observed (fst (notifyStateUpdate ?s2))"
    using o by (simp_all add: notify_observed)
qed

lemma cleared:
  assumes "observed s"
  shows "state (fst (notifyStateUpdate (stopUpdateInterval (fst (clearState (s\<lparr>state := st\<rparr>)))))) = st"
    and "observed (fst (notifyStateUpdate (stopUpdateInterval (fst (clearState (s\<lparr>state := st\<rparr>))))))"
proof -
  let ?s2 = "stopUpdateInterval (fst (clearState (s\<lparr>state := st\<rparr>)))"
  have o: "observed ?s2"
    using assms by (simp add: observed_frames)
  have "state ?s2 = st"
    by (simp add: stopUpdateInterval_frame clearState_frame)
  then show "state (fst (notifyStateUpdate ?s2)) = st" "observed (fst (notifyStateUpdate ?s2))"
    using o by (simp_all add: notify_observed)
qed

lemma restored:
  assumes "observed s"
  shows "state (fst (notifyStateUpdate (startUpdateInterval (s\<lparr>state := st\<rparr>)))) = st"
    and "observed (fst (notifyStateUpdate (startUpdateInterval (s\<lparr>state := st\<rparr>))))"
proof -
  let ?s2 = "startUpdateInterval (s\<lparr>state := st\<rparr>)"
  have o: "observed ?s2"
    using assms by (simp add: observed_frames)
  have "state ?s2 = st"
    by (simp add: startUpdateInterval_frame)
  then show "state (fst (notifyStateUpdate ?s2)) = st" "observed (fst (notifyStateUpdate ?s2))"
    using o by (simp_all add: notify_observed)
qed

subsection \<open>The state invariant with observers that only read\<close>

lemma state_ok_stopped: "state_ok stopped"
  by (simp add: state_ok_def stopped_def)

lemma state_ok_running:
  "t \<noteq> None \<Longrightarrow> i \<noteq> None \<Longrightarrow>
   state_ok \<lparr>isRunning = True, startTime = t, entryId = i, entry = en\<rparr>"
  by (simp add: state_ok_def)

lemma engine_ok_start:
  assumes "engine_ok s" shows "engine_ok (service (startTimer e nm p t s))"
proof -
  have o: "observed s" and k: "state_ok (state s)" using assms by (simp_all add: engine_ok_def)
  show ?thesis
    using assms
    by (simp add: engine_ok_def startTimer_def start_failed_def Let_def prod.case_eq_if
                  createTimesheetEntry_def installed[OF o] state_ok_running
             split: option.split sum.split)
qed

lemma engine_ok_stop:
  assumes "engine_ok s" shows "engine_ok (service (stopTimer e s))"
proof -
  have o: "observed s" using assms by (simp add: engine_ok_def)
  show ?thesis
    using assms
    by (simp add: engine_ok_def stopTimer_def stop_failed_def Let_def prod.case_eq_if
                  getTimesheetEntry_def cleared[OF o] state_ok_stopped
             split: option.split sum.split)
qed

lemma engine_ok_refresh:
  assumes "engine_ok s" shows "engine_ok (fst (refreshState e s))"
proof -
  have o: "observed (stopUpdateInterval s)" using assms by (simp add: engine_ok_def observed_frames)
  have k: "state_ok (state s)" using assms by (simp add: engine_ok_def)
  obtain r evs where g: "getRunningTimer e = (r, evs)" by (cases "getRunningTimer e")
  show ?thesis
  proof (cases r)
    case (Inl err)
    then show ?thesis
      using o k by (simp add: refreshState_def g Let_def engine_ok_def observed_frames stopUpdateInterval_frame)
  next
    case (Inr rt)
    show ?thesis
    proof (cases "rt \<noteq> None \<and> truthy (id' (the rt))")
      case True
      then obtain x where x: "rt = Some x" "truthy (id' x)" by auto
      have "id' x \<noteq> None" using x(2) by (rule truthy_Some)
      then show ?thesis
        using x by (simp add: refreshState_def g Inr Let_def engine_ok_def prod.case_eq_if
                              installed[OF o] state_ok_running)
    next
      case False
      then show ?thesis
        using o k
        by (cases rt)
           (simp_all add: refreshState_def g Inr Let_def engine_ok_def prod.case_eq_if
                          cleared[OF o] state_ok_stopped stopUpdateInterval_frame)
    qed
  qed
qed

lemma engine_ok_load:
  assumes "engine_ok s" shows "engine_ok (service (loadState e s))"
proof -
  have o: "observed s" using assms by (simp add: engine_ok_def)
  have c: "engine_ok (fst (clearState s))"
    using assms by (simp add: engine_ok_def observed_frames clearState_frame)
  show ?thesis
    using assms c
    by (simp add: engine_ok_def loadState_def Let_def prod.case_eq_if restored[OF o]
                  state_ok_running truthy_Some
             split: option.split sum.split)
qed

lemma engine_ok_tick:
  assumes "engine_ok s" shows "engine_ok (fst (tick s))"
proof -
  have o: "observed s" using assms by (simp add: engine_ok_def)
  have "fst (tick s) = s \<or> fst (tick s) = stopUpdateInterval s"
    by (simp add: tick_def notify_observed[OF o])
  then show ?thesis
    using assms by (auto simp: engine_ok_def observed_frames stopUpdateInterval_frame)
qed

lemma engine_ok_new: "engine_ok (TimerService_new ctx)"
  by (simp add: engine_ok_def observed_def TimerService_new_def state_ok_stopped)

lemma engine_ok_subscribe: "engine_ok s \<Longrightarrow> read_only callback \<Longrightarrow> engine_ok (onStateUpdate callback s)"
  by (simp add: engine_ok_def observed_def onStateUpdate_def)

lemma engine_ok_resume: "engine_ok s \<Longrightarrow> engine_ok (resume s)"
  by (simp add: engine_ok_def observed_frames resume_frame)

lemma engine_ok_dispose: "engine_ok s \<Longrightarrow> engine_ok (dispose s)"
  by (simp add: engine_ok_def observed_def dispose_def stopUpdateInterval_frame)

lemma reachable_passive_engine_ok: "reachable_passive s \<Longrightarrow> engine_ok s"
proof (induction rule: reachable_passive.induct)
  case (p_new ctx)
  show ?case by (rule engine_ok_new)
next
  case (p_subscribe s callback)
  then show ?case by (simp only: engine_ok_subscribe)
next
  case (p_start s e nm projectId taskId)
  then show ?case by (simp only: engine_ok_start)
next
  case (p_stop s e)
  then show ?case by (simp only: engine_ok_stop)
next
  case (p_refresh s e)
  then show ?case by (simp only: engine_ok_refresh)
next
  case (p_load s e)
  then show ?case by (simp only: engine_ok_load)
next
  case (p_tick s)
  then show ?case by (simp only: engine_ok_tick)
next
  case (p_resume s)
  then show ?case by (simp only: engine_ok_resume)
next
  case (p_dispose s)
  then show ?case by (simp only: engine_ok_dispose)
qed

lemma passive_state_invariant:
  assumes "reachable_passive s"
  shows "(isRunning (state s) \<longleftrightarrow> startTime (state s) \<noteq> None \<and> entryId (state s) \<noteq> None) \<and>
         (\<not> isRunning (state s) \<longrightarrow>
            startTime (state s) = None \<and> entryId (state s) = None \<and> entry (state s) = None)"
  using reachable_passive_engine_ok[OF assms] unfolding engine_ok_def state_ok_def by blast

lemma read_only_reader: "read_only reader"
  by (simp add: read_only_def reader_def)

lemma tick_idle: "intervalId s = None \<Longrightarrow> tick s = (s, [])"
  by (simp add: tick_def)

lemma ticks_idle: "intervalId s = None \<Longrightarrow> ticks n s = (s, [])"
  by (induction n) (simp_all add: tick_idle)

subsection \<open>Rejected and failed starts\<close>

text \<open>
  C8. When a timer is running, \<open>startTimer\<close> returns \<open>false\<close> and leaves the whole engine as
  it was (its TimerState included); the only thing it does is to show the warning
  ``Timer is already running'': no remote call, no write to the persisted snapshot, no
  notification of an observer.
\<close>

theorem startTimer_rejected_while_running:
  assumes "isRunning (state s)"
  shows "returned (startTimer e nm projectId taskId s) = False \<and>
         service (startTimer e nm projectId taskId s) = s \<and>
         events (startTimer e nm projectId taskId s) = [Shown (Warning ''Timer is already running'')] \<and>
         remote_calls (events (startTimer e nm projectId taskId s)) = [] \<and>
         written (events (startTimer e nm projectId taskId s)) = [] \<and>
         notified (events (startTimer e nm projectId taskId s)) = []"
  using assms by (simp add: startTimer_def remote_calls_def written_def notified_def)

theorem startTimer_rejected_while_running_witness:
  "isRunning (state tracking) \<and>
   returned (startTimer (world 5000 0 (Inr None)) ''Task B'' (Some 5) None tracking) = False \<and>
   service (startTimer (world 5000 0 (Inr None)) ''Task B'' (Some 5) None tracking) = tracking \<and>
   remote_calls (events (startTimer (world 5000 0 (Inr None)) ''Task B'' (Some 5) None tracking)) = []"
proof -
  have h: "isRunning (state tracking)" by (simp add: tracking_def)
  show ?thesis
    using h startTimer_rejected_while_running[OF h, of "world 5000 0 (Inr None)" "''Task B''" "Some 5" None]
    by blast
qed

text \<open>
  C7. When the remote create call fails, or the create call succeeds and the remote
  start-timer call fails, \<open>startTimer\<close> returns \<open>false\<close>, the engine (TimerState, tick and
  persisted snapshot) is exactly what it was, nothing is written to the snapshot, no observer
  is notified, and the failure is shown to the user as ``Failed to start timer: ...''.
\<close>

theorem startTimer_remote_failure:
  assumes "session e = Some sess"
    and "create_answer e (create_values (new_entry e nm projectId taskId sess)) = Inl err \<or>
         (\<exists>i. create_answer e (create_values (new_entry e nm projectId taskId sess)) = Inr i \<and>
              timer_start_answer e i = Inl err)"
  shows "returned (startTimer e nm projectId taskId s) = False \<and>
         service (startTimer e nm projectId taskId s) = s \<and>
         written (events (startTimer e nm projectId taskId s)) = [] \<and>
         notified (events (startTimer e nm projectId taskId s)) = [] \<and>
         (\<not> isRunning (state s) \<longrightarrow>
            last (events (startTimer e nm projectId taskId s)) =
              Shown (ErrorMessage (''Failed to start timer: '' @ err)))"
  using assms
  by (auto simp: startTimer_def start_failed_def createTimesheetEntry_def Let_def
                 written_def notified_def)

text \<open>The start-timer call fails after record 42 was created; the engine stays stopped.\<close>

theorem startTimer_remote_failure_witness:
  "\<not> isRunning (state (TimerService_new (Some Map.empty))) \<and>
   returned (startTimer ((world 1000 0 (Inr None))\<lparr>timer_start_answer := (\<lambda>_. Inl ''API error'')\<rparr>)
              ''Task A'' (Some 5) (Some 10) (TimerService_new (Some Map.empty))) = False \<and>
   service (startTimer ((world 1000 0 (Inr None))\<lparr>timer_start_answer := (\<lambda>_. Inl ''API error'')\<rparr>)
              ''Task A'' (Some 5) (Some 10) (TimerService_new (Some Map.empty)))
     = TimerService_new (Some Map.empty) \<and>
   last (events (startTimer ((world 1000 0 (Inr None))\<lparr>timer_start_answer := (\<lambda>_. Inl ''API error'')\<rparr>)
              ''Task A'' (Some 5) (Some 10) (TimerService_new (Some Map.empty))))
     = Shown (ErrorMessage ''Failed to start timer: API error'')"
proof -
  let ?e = "(world 1000 0 (Inr None))\<lparr>timer_start_answer := (\<lambda>_. Inl ''API error'')\<rparr>"
  have s: "session ?e = Some \<lparr>uid = 2\<rparr>" by (simp add: world_def)
  have f: "create_answer ?e (create_values (new_entry ?e ''Task A'' (Some 5) (Some 10) \<lparr>uid = 2\<rparr>)) = Inl ''API error'' \<or>
           (\<exists>i. create_answer ?e (create_values (new_entry ?e ''Task A'' (Some 5) (Some 10) \<lparr>uid = 2\<rparr>)) = Inr i \<and>
                timer_start_answer ?e i = Inl ''API error'')"
    by (simp add: world_def)
  have n: "\<not> isRunning (state (TimerService_new (Some Map.empty)))"
    by (simp add: TimerService_new_def stopped_def)
  show ?thesis
    using n startTimer_remote_failure[OF s f, of "TimerService_new (Some Map.empty)"]
    by simp
qed

subsection \<open>A failed reconcile and the tick\<close>

text \<open>
  C10. When reconcile runs while a timer is tracked and the query for the running timer
  fails, the TimerState stays as it was (running), the interval that \<open>refreshState\<close>
  cancelled on entry is not installed again, and so no number of later firings notifies any
  observer or changes the engine.
\<close>

theorem refreshState_failure_leaves_tick_cancelled:
  assumes "isRunning (state s)" and "fst (getRunningTimer e) = Inl err"
  shows "state (fst (refreshState e s)) = state s \<and>
         isRunning (state (fst (refreshState e s))) \<and>
         intervalId (fst (refreshState e s)) = None \<and>
         notified (snd (refreshState e s)) = [] \<and>
         ticks n (fst (refreshState e s)) = (fst (refreshState e s), [])"
proof -
  obtain evs where g: "getRunningTimer e = (Inl err, evs)"
    using assms(2) by (cases "getRunningTimer e") simp
  have noevs: "notified evs = []"
    using g by (auto simp: getRunningTimer_def getTimesheetEntry_def notified_def
                  split: sum.splits option.splits if_splits)
  have r: "refreshState e s =
      (stopUpdateInterval (stopUpdateInterval s),
       evs @ [Shown (ConsoleError ''Failed to refresh timer state:'' err)])"
    by (simp add: refreshState_def g Let_def)
  have i: "intervalId (fst (refreshState e s)) = None"
    by (simp add: r stopUpdateInterval_frame)
  show ?thesis
    using assms(1) noevs ticks_idle[OF i] i
    by (simp add: r stopUpdateInterval_frame notified_def)
qed

text \<open>
  The engine \<open>tracking\<close> has its interval installed; after a reconcile against a backend
  that answers with an error it has none, and three firings later nothing has happened.
\<close>

theorem refreshState_failure_leaves_tick_cancelled_witness:
  "isRunning (state tracking) \<and> intervalId tracking = Some Timeout \<and>
   fst (getRunningTimer (world 5000 0 (Inl ''API error: timeout''))) = Inl ''API error: timeout'' \<and>
   isRunning (state (fst (refreshState (world 5000 0 (Inl ''API error: timeout'')) tracking))) \<and>
   intervalId (fst (refreshState (world 5000 0 (Inl ''API error: timeout'')) tracking)) = None \<and>
   ticks 3 (fst (refreshState (world 5000 0 (Inl ''API error: timeout'')) tracking))
     = (fst (refreshState (world 5000 0 (Inl ''API error: timeout'')) tracking), [])"
proof -
  have h: "isRunning (state tracking)" by (simp add: tracking_def)
  have i: "intervalId tracking = Some Timeout" by (simp add: tracking_def)
  have g: "fst (getRunningTimer (world 5000 0 (Inl ''API error: timeout''))) = Inl ''API error: timeout''"
    by (simp add: getRunningTimer_def world_def)
  show ?thesis
    using h i g refreshState_failure_leaves_tick_cancelled[OF h g, of 3]
    by simp
qed

subsection \<open>The stale snapshot\<close>

text \<open>
  C4 at its failing input. A snapshot for record 42 is stored; the backend reports no running
  timer, or reports record 43. \<open>loadState\<close> returns \<open>false\<close> and leaves the engine as it
  was, the stored snapshot included: it asks the backend and does nothing else. (Only when the
  query itself fails does \<open>loadState\<close> clear the snapshot.)
\<close>

theorem loadState_mismatch_keeps_snapshot:
  "loadState (world 5000 0 (Inr None)) (TimerService_new (Some snapshot)) =
     \<lparr>returned = False, service = TimerService_new (Some snapshot),
      events = [Remote GetRunningTimer]\<rparr> \<and>
   loadState (world 5000 0 (reports 43 60)) (TimerService_new (Some snapshot)) =
     \<lparr>returned = False, service = TimerService_new (Some snapshot),
      events = [Remote GetRunningTimer, Remote (ReadEntry 43)]\<rparr> \<and>
   get_number snapshot ''timer_entryId'' = Some 42"
  by (simp add: loadState_def TimerService_new_def snapshot_def get_number_def get_string_def
                truthy_def getRunningTimer_def getTimesheetEntry_def world_def reports_def
                read_back_def Let_def)

subsection \<open>What an observer is handed\<close>

text \<open>
  C9 at its failing input. \<open>notifyStateUpdate\<close> hands every observer the engine's own state
  object. The observer \<open>meddler\<close> writes \<open>isRunning = false\<close> and \<open>entryId = 99\<close> into its
  argument, and after the fan-out that is the state of the engine: a start that returned
  \<open>true\<close> leaves an engine that is not running.
\<close>

theorem notifyStateUpdate_hands_out_engine_state:
  "state (fst (notifyStateUpdate (onStateUpdate meddler tracking))) =
     (state tracking)\<lparr>isRunning := False, entryId := Some 99\<rparr> \<and>
   state (fst (notifyStateUpdate (onStateUpdate meddler tracking))) \<noteq> state tracking \<and>
   returned (startTimer (world 1000 0 (Inr None)) ''Task A'' (Some 5) (Some 10)
               (onStateUpdate meddler (TimerService_new None))) \<and>
   \<not> isRunning (getState (service (startTimer (world 1000 0 (Inr None)) ''Task A'' (Some 5) (Some 10)
               (onStateUpdate meddler (TimerService_new None)))))"
  by (simp add: notifyStateUpdate_def onStateUpdate_def tracking_def reader_def meddler_def
                getState_def startTimer_def world_def TimerService_new_def stopped_def
                createTimesheetEntry_def saveState_def startUpdateInterval_def
                stopUpdateInterval_def Let_def)

subsection \<open>What reconcile installs\<close>

lemma notified_append: "notified (xs @ ys) = notified xs @ notified ys"
  by (simp add: notified_def)

lemma written_append: "written (xs @ ys) = written xs @ written ys"
  by (simp add: written_def)

lemma forEach_events: "written (snd (forEach cbs st)) = []"
  by (induction cbs arbitrary: st) (simp_all add: prod.case_eq_if written_def)

lemma saveState_events: "notified (snd (saveState s)) = []"
  by (simp add: saveState_def notified_def split: option.splits)

lemma clearState_events: "notified (snd (clearState s)) = []"
  by (simp add: clearState_def notified_def split: option.splits)

lemma getRunningTimer_quiet:
  "notified (snd (getRunningTimer e)) = [] \<and> written (snd (getRunningTimer e)) = []"
  by (simp add: getRunningTimer_def getTimesheetEntry_def notified_def written_def
           split: sum.split option.split)

lemma getRunningTimer_reports:
  assumes "running_answer e = Inr (Some result)" and "truthy (r_id result)"
    and "read_answer e (the (r_id result)) = Inr (Some en)"
  shows "fst (getRunningTimer e) =
           Inr (Some (en\<lparr>running_seconds := Some (case r_start result of None \<Rightarrow> 0 | Some x \<Rightarrow> x),
                          project_id := r_project_id result,
                          task_id := r_task_id result\<rparr>))"
  using assms by (simp add: getRunningTimer_def getTimesheetEntry_def)


lemma refresh_running:
  assumes "fst (getRunningTimer e) = Inr (Some rt)" and "truthy (id' rt)"
  shows "state (fst (refreshState e s)) = fst (forEach (updateCallbacks s) (running_state e rt))"
    and "updateCallbacks (fst (refreshState e s)) = updateCallbacks s"
    and "context' (fst (refreshState e s)) =
           map_option (update ''timer_entryId'' (field_value (running_state e rt) ''timer_entryId''))
             (context' s)"
    and "pending (fst (refreshState e s)) =
           (if context' s = None then pending s else pending s @ [Saving 0])"
    and "notified (snd (refreshState e s)) =
           notified (snd (forEach (updateCallbacks s) (running_state e rt)))"
proof -
  obtain evs where g: "getRunningTimer e = (Inr (Some rt), evs)"
    using assms(1) by (cases "getRunningTimer e") simp
  have q: "notified evs = []" using getRunningTimer_quiet[of e] by (simp add: g)
  let ?s1 = "(stopUpdateInterval s)\<lparr>state := running_state e rt\<rparr>"
  let ?s2 = "startUpdateInterval (fst (saveState ?s1))"
  have r: "refreshState e s =
             (fst (notifyStateUpdate ?s2),
              evs @ snd (saveState ?s1) @ snd (notifyStateUpdate ?s2))"
    using assms(2) by (simp add: refreshState_def g Let_def prod.case_eq_if running_state_def)
  have f: "state ?s2 = running_state e rt" "updateCallbacks ?s2 = updateCallbacks s"
    by (simp_all add: startUpdateInterval_frame saveState_frame stopUpdateInterval_frame)
  show "state (fst (refreshState e s)) = fst (forEach (updateCallbacks s) (running_state e rt))"
    by (simp add: r notifyStateUpdate_frame f)
  show "updateCallbacks (fst (refreshState e s)) = updateCallbacks s"
    by (simp add: r notifyStateUpdate_frame f)
  show "context' (fst (refreshState e s)) =
           map_option (update ''timer_entryId'' (field_value (running_state e rt) ''timer_entryId''))
             (context' s)"
    by (simp add: r notifyStateUpdate_frame startUpdateInterval_frame saveState_store
                  stopUpdateInterval_frame)
  show "pending (fst (refreshState e s)) =
           (if context' s = None then pending s else pending s @ [Saving 0])"
    by (simp add: r notifyStateUpdate_frame startUpdateInterval_frame saveState_store
                  stopUpdateInterval_frame)
  show "notified (snd (refreshState e s)) =
           notified (snd (forEach (updateCallbacks s) (running_state e rt)))"
    by (simp add: r notified_append q saveState_events notifyStateUpdate_frame f)
qed



subsection \<open>Suspended writes\<close>

lemma fold_update:
  "fold (\<lambda>key. update key (f key)) ks m = (\<lambda>x. if x \<in> set ks then f x else m x)"
  by (induction ks arbitrary: m) (auto simp: update_def fun_eq_iff)

lemma run_job_eq:
  "run_job st j m = (\<lambda>x. if x \<in> set (remaining j) then job_value st j x else m x)"
  by (simp add: run_job_def fold_update)



lemma settle_resume: "settle (resume s) = settle s"
proof (cases "pending s")
  case Nil
  then show ?thesis by (simp add: resume_def)
next
  case (Cons j rest)
  show ?thesis
  proof (cases "remaining j")
    case Nil
    then have "run_job (state s) j = id"
      by (simp add: fun_eq_iff run_job_def)
    then show ?thesis
      using Nil by (simp add: resume_def \<open>pending s = j # rest\<close> settle_def)
  next
    case (Cons key keys)
    have step: "drop (Suc n) xs = tl (drop n xs)" for n and xs :: "string list"
      by (simp add: drop_Suc tl_drop)
    have adv: "remaining (advance j) = keys"
      using Cons by (cases j) (simp_all add: step del: drop_Suc_Cons)
    have val: "job_value st (advance j) = job_value st j" for st
      by (cases j) (simp_all add: fun_eq_iff)
    show ?thesis
      by (simp add: resume_def \<open>pending s = j # rest\<close> Cons settle_def run_job_def adv val
                    option.map_comp comp_def)
  qed
qed

lemma first_key_kept: "''timer_entryId'' \<notin> set (remaining j)"
proof -
  have "set (remaining j) \<subseteq> set (drop 1 timer_keys)"
    by (cases j) (auto simp: drop_Suc dest: in_set_dropD)
  then show ?thesis by (auto simp: timer_keys_def)
qed

lemma jobs_keep_first_key: "fold (run_job st) js m ''timer_entryId'' = m ''timer_entryId''"
  by (induction js arbitrary: m) (simp_all add: run_job_eq first_key_kept)



subsection \<open>Doubles\<close>

lemma round_even_near: "\<bar>real_of_int (round_even y) - y\<bar> \<le> 1 / 2"
  unfolding round_even_def Let_def by (auto; linarith)

lemma round_even_bound:
  assumes "\<bar>y\<bar> < real_of_int n"
  shows "\<bar>real_of_int (round_even y)\<bar> \<le> real_of_int n"
proof -
  have "\<bar>real_of_int (round_even y)\<bar> \<le> \<bar>y\<bar> + 1 / 2"
    using round_even_near[of y] by linarith
  then have "\<bar>real_of_int (round_even y)\<bar> < real_of_int n + 1 / 2"
    using assms by linarith
  then have "\<bar>round_even y\<bar> < n + 1" by linarith
  then show ?thesis by linarith
qed

lemma below_huge: "j \<le> 1023 \<Longrightarrow> 2 powr real_of_int j < huge"
proof -
  assume "j \<le> 1023"
  then have "real_of_int j < 1024" by simp
  then show ?thesis
    unfolding huge_def by (subst powr_less_cancel_iff) simp_all
qed

text \<open>The double of a real whose binary exponent \<open>k\<close> is known, in the normal range.\<close>

lemma double_normal:
  assumes "2 powr real_of_int k \<le> \<bar>x\<bar>" and "\<bar>x\<bar> < 2 powr real_of_int (k + 1)"
    and "- 1022 \<le> k" and "k \<le> 1022"
  shows "double x = Fin (real_of_int (round_even (x / 2 powr real_of_int (k - 52))) * 2 powr real_of_int (k - 52))"
proof -
  have "(0::real) < 2 powr real_of_int k" by simp
  then have pos: "0 < \<bar>x\<bar>" using assms(1) by linarith
  then have nz: "x \<noteq> 0" by simp
  have e: "\<lfloor>log 2 \<bar>x\<bar>\<rfloor> = k"
    using assms(1,2) pos by (simp add: floor_log_eq_powr_iff)
  let ?u = "2 powr real_of_int (k - 52)"
  let ?n = "real_of_int (round_even (x / ?u))"
  have upos: "0 < ?u" by simp
  have split: "2 powr real_of_int (k + 1) = real_of_int (2 ^ 53) * ?u"
  proof -
    have "real_of_int (k + 1) = 53 + real_of_int (k - 52)" by simp
    then have "2 powr real_of_int (k + 1) = (2::real) powr 53 * ?u"
      by (simp only: powr_add)
    then show ?thesis by simp
  qed
  have "\<bar>x / ?u\<bar> = \<bar>x\<bar> / ?u" by simp
  also have "\<dots> < real_of_int (2 ^ 53) * ?u / ?u"
    using assms(2) upos unfolding split by (rule divide_strict_right_mono)
  also have "\<dots> = real_of_int (2 ^ 53)" using upos by simp
  finally have "\<bar>?n\<bar> \<le> real_of_int (2 ^ 53)"
    by (rule round_even_bound)
  then have "\<bar>?n\<bar> * ?u \<le> real_of_int (2 ^ 53) * ?u"
    using upos by (simp add: mult_right_mono)
  then have "\<bar>?n * ?u\<bar> \<le> 2 powr real_of_int (k + 1)"
    unfolding split by (simp add: abs_mult)
  moreover have "2 powr real_of_int (k + 1) < huge"
    using assms(4) by (intro below_huge) simp
  ultimately have small: "\<not> huge \<le> \<bar>?n * ?u\<bar>" by linarith
  have m: "max k (- 1022) = k" using assms(3) by simp
  show ?thesis
    unfolding double_def Let_def e m using nz small by simp
qed

lemma back_computed_eq:
  assumes "running_seconds rt = Some E" and "unit_amount rt = H"
  shows "back_computed e rt =
           new_Date (js_minus (Fin (real_of_int (now e)))
                      (js_times (js_minus (Fin E) (js_times (Fin H) (Fin 3600))) (Fin 1000)))"
  using assms by (simp add: back_computed_def Let_def Date_now_def double_def)

text \<open>The computation of \<open>back_computed\<close> on the numbers of the examples.\<close>

lemma lit_64_4: "lit (644 / 10) = 4531747125041562 / 2 ^ 46"
  by (simp add: lit_def double_normal[where k = 6] round_even_def powr_neg_numeral)

lemma start_of_64_4:
  "new_Date (js_minus (Fin 100000)
      (js_times (js_minus (Fin (lit (644 / 10))) (js_times (Fin 0) (Fin 3600))) (Fin 1000)))
   = Date 35599"
  unfolding lit_64_4
  by (simp add: double_def[of 0] double_normal[where k = 6] double_normal[where k = 15]
                round_even_def powr_neg_numeral)

lemma start_of_huge:
  "new_Date (js_minus (Fin 100000)
      (js_times (js_minus (Fin (10 ^ 20)) (js_times (Fin 0) (Fin 3600))) (Fin 1000)))
   = Invalid_Date"
  by (simp add: double_def[of 0] double_normal[where k = 66] double_normal[where k = 76]
                round_even_def powr_neg_numeral)

lemma start_of_exact:
  "new_Date (js_minus (Fin 200000)
      (js_times (js_minus (Fin 1000) (js_times (Fin (1 / 4)) (Fin 3600))) (Fin 1000)))
   = Date 100000"
  by (simp add: double_normal[where k = 9] double_normal[where k = 6]
                double_normal[where k = 16] round_even_def powr_neg_numeral)

lemma start_of_0_1:
  "new_Date (js_minus (Fin 100000)
      (js_times (js_minus (Fin (lit (1 / 10))) (js_times (Fin 0) (Fin 3600))) (Fin 1000)))
   = Date 99900"
proof -
  have l: "lit (1 / 10) = 3602879701896397 / 2 ^ 55"
    by (simp add: lit_def double_normal[where k = "- 4"] round_even_def powr_neg_numeral)
  show ?thesis
    unfolding l
    by (simp add: double_def[of 0] double_normal[where k = "- 4"] double_normal[where k = 6]
                  double_normal[where k = 16] round_even_def powr_neg_numeral)
qed

lemma start_of_later:
  "new_Date (js_minus (Fin 200300)
      (js_times (js_minus (Fin 1000) (js_times (Fin (1 / 4)) (Fin 3600))) (Fin 1000)))
   = Date 100300"
  by (simp add: double_normal[where k = 9] double_normal[where k = 6]
                double_normal[where k = 16] round_even_def powr_neg_numeral)

text \<open>Reconcile against the backend of the examples, in front of observers that only read.\<close>

lemma refresh_world:
  assumes "i \<noteq> 0" and "observed s"
  shows "fst (getRunningTimer (world t h (reports i secs))) =
           Inr (Some ((read_back h i)\<lparr>running_seconds := Some secs, project_id := Some 5,
                                      task_id := Some 10\<rparr>))"
    and "state (fst (refreshState (world t h (reports i secs)) s)) =
           \<lparr>isRunning = True,
            startTime = Some (new_Date (js_minus (Fin (real_of_int t))
                         (js_times (js_minus (Fin secs) (js_times (Fin h) (Fin 3600))) (Fin 1000)))),
            entryId = Some i,
            entry = Some ((read_back h i)\<lparr>running_seconds := Some secs, project_id := Some 5,
                                           task_id := Some 10\<rparr>)\<rparr>"
proof -
  let ?e = "world t h (reports i secs)"
  let ?rt = "(read_back h i)\<lparr>running_seconds := Some secs, project_id := Some 5,
                              task_id := Some 10\<rparr>"
  show g: "fst (getRunningTimer ?e) = Inr (Some ?rt)"
    using assms(1)
    by (simp add: getRunningTimer_def getTimesheetEntry_def world_def reports_def truthy_def)
  have t: "truthy (id' ?rt)" using assms(1) by (simp add: read_back_def truthy_def)
  have b: "back_computed ?e ?rt =
             new_Date (js_minus (Fin (real_of_int (now ?e)))
               (js_times (js_minus (Fin secs) (js_times (Fin h) (Fin 3600))) (Fin 1000)))"
    by (rule back_computed_eq) (simp_all add: read_back_def)
  have n: "now ?e = t" by (simp add: world_def)
  have f: "forEach (updateCallbacks s) (running_state ?e ?rt) =
             (running_state ?e ?rt, map (\<lambda>_. Notified (running_state ?e ?rt)) (updateCallbacks s))"
    using assms(2) by (simp add: observed_def forEach_read_only)
  have "state (fst (refreshState ?e s)) = running_state ?e ?rt"
    unfolding refresh_running(1)[OF g t] f by simp
  also have "\<dots> =
           \<lparr>isRunning = True,
            startTime = Some (new_Date (js_minus (Fin (real_of_int t))
                         (js_times (js_minus (Fin secs) (js_times (Fin h) (Fin 3600))) (Fin 1000)))),
            entryId = Some i, entry = Some ?rt\<rparr>"
    unfolding running_state_def b n by (simp add: read_back_def)
  finally show "state (fst (refreshState ?e s)) =
           \<lparr>isRunning = True,
            startTime = Some (new_Date (js_minus (Fin (real_of_int t))
                         (js_times (js_minus (Fin secs) (js_times (Fin h) (Fin 3600))) (Fin 1000)))),
            entryId = Some i, entry = Some ?rt\<rparr>" .
qed

lemma observed_new: "observed (TimerService_new ctx)"
  by (simp add: observed_def TimerService_new_def)


subsection \<open>The state invariant\<close>

text \<open>
  C1 at its failing input. An observer that writes \<open>isRunning = false\<close> and \<open>entryId = 99\<close>
  into the object it is handed is subscribed to a new engine; \<open>startTimer\<close> succeeds and
  returns \<open>true\<close>. The engine it leaves is reachable by construction, subscription and start,
  and its state is not running although \<open>startTime\<close> and \<open>entryId\<close> are present.
\<close>

theorem writing_observer_breaks_invariant:
  "reachable (service (startTimer (world 1000 0 (Inr None)) ''Task A'' (Some 5) (Some 10)
                (onStateUpdate meddler (TimerService_new None)))) \<and>
   returned (startTimer (world 1000 0 (Inr None)) ''Task A'' (Some 5) (Some 10)
                (onStateUpdate meddler (TimerService_new None))) \<and>
   \<not> isRunning (state (service (startTimer (world 1000 0 (Inr None)) ''Task A'' (Some 5) (Some 10)
                (onStateUpdate meddler (TimerService_new None))))) \<and>
   startTime (state (service (startTimer (world 1000 0 (Inr None)) ''Task A'' (Some 5) (Some 10)
                (onStateUpdate meddler (TimerService_new None))))) = Some (Date 1000) \<and>
   entryId (state (service (startTimer (world 1000 0 (Inr None)) ''Task A'' (Some 5) (Some 10)
                (onStateUpdate meddler (TimerService_new None))))) = Some 99"
proof -
  let ?s = "service (startTimer (world 1000 0 (Inr None)) ''Task A'' (Some 5) (Some 10)
              (onStateUpdate meddler (TimerService_new None)))"
  have r: "reachable ?s"
    by (intro r_start r_subscribe r_new)
  have v: "returned (startTimer (world 1000 0 (Inr None)) ''Task A'' (Some 5) (Some 10)
                (onStateUpdate meddler (TimerService_new None))) \<and>
           \<not> isRunning (state ?s) \<and> startTime (state ?s) = Some (Date 1000) \<and>
           entryId (state ?s) = Some 99"
    by (simp add: startTimer_def world_def TimerService_new_def onStateUpdate_def stopped_def
                  createTimesheetEntry_def saveState_def startUpdateInterval_def
                  stopUpdateInterval_def notifyStateUpdate_def meddler_def Let_def)
  show ?thesis using r v by blast
qed

subsection \<open>Reconcile: the start time and idempotence\<close>

text \<open>
  C2, as the code has it. When the backend reports a running timer with \<open>E\<close> elapsed seconds
  and the record it reads back carries \<open>H\<close> accumulated hours, the running state that
  reconcile assigns, and hands to the observers one after the other, has the start time
  \<^verbatim>\<open>new Date(now - (E - H * 3600) * 1000)\<close>, each operation rounded to a double and the result
  cut to whole milliseconds by \<^verbatim>\<open>new Date\<close>, which gives the Invalid Date outside its range.
\<close>

theorem refreshState_back_computes_startTime:
  assumes "running_answer e = Inr (Some result)" and "truthy (r_id result)"
    and "r_start result = Some E"
    and "read_answer e (the (r_id result)) = Inr (Some en)" and "truthy (id' en)"
    and "unit_amount en = H"
  shows "let installed =
               \<lparr>isRunning = True,
                startTime = Some (new_Date (js_minus (Fin (real_of_int (now e)))
                              (js_times (js_minus (Fin E) (js_times (Fin H) (Fin 3600)))
                                 (Fin 1000)))),
                entryId = id' en,
                entry = Some (en\<lparr>running_seconds := Some E, project_id := r_project_id result,
                                  task_id := r_task_id result\<rparr>)\<rparr>
         in state (fst (refreshState e s)) = fst (forEach (updateCallbacks s) installed) \<and>
            notified (snd (refreshState e s)) = notified (snd (forEach (updateCallbacks s) installed))"
proof -
  let ?rt = "en\<lparr>running_seconds := Some (case r_start result of None \<Rightarrow> 0 | Some x \<Rightarrow> x),
                 project_id := r_project_id result, task_id := r_task_id result\<rparr>"
  have g: "fst (getRunningTimer e) = Inr (Some ?rt)"
    using assms(1,2,4) by (rule getRunningTimer_reports)
  have t: "truthy (id' ?rt)" using assms(5) by simp
  have b: "back_computed e ?rt =
             new_Date (js_minus (Fin (real_of_int (now e)))
               (js_times (js_minus (Fin E) (js_times (Fin H) (Fin 3600))) (Fin 1000)))"
    by (rule back_computed_eq) (simp_all add: assms(3,6))
  have x: "running_state e ?rt =
             \<lparr>isRunning = True,
              startTime = Some (new_Date (js_minus (Fin (real_of_int (now e)))
                            (js_times (js_minus (Fin E) (js_times (Fin H) (Fin 3600))) (Fin 1000)))),
              entryId = id' en,
              entry = Some (en\<lparr>running_seconds := Some E, project_id := r_project_id result,
                                task_id := r_task_id result\<rparr>)\<rparr>"
    unfolding running_state_def b by (simp add: assms(3))
  show ?thesis
    unfolding Let_def x [symmetric]
    using refresh_running(1,5)[OF g t, of s] by simp
qed

text \<open>
  At clock 200000 ms the backend reports record 7 running for 1000 s with 0.25 h (900 s)
  accumulated; every step is exact and the start time is 200000 - 100000 = 100000 ms.
\<close>

theorem refreshState_back_computes_startTime_witness:
  "isRunning (state (fst (refreshState (world 200000 (1 / 4) (reports 7 1000))
                            (onStateUpdate reader (TimerService_new None))))) \<and>
   startTime (state (fst (refreshState (world 200000 (1 / 4) (reports 7 1000))
                            (onStateUpdate reader (TimerService_new None))))) = Some (Date 100000)"
proof -
  let ?e = "world 200000 (1 / 4) (reports 7 1000)"
  let ?s = "onStateUpdate reader (TimerService_new None)"
  let ?result = "\<lparr>r_id = Some 7, r_start = Some 1000, r_project_id = Some 5,
                   r_task_id = Some 10\<rparr>"
  let ?X = "\<lparr>isRunning = True,
             startTime = Some (new_Date (js_minus (Fin (real_of_int (now ?e)))
                           (js_times (js_minus (Fin 1000) (js_times (Fin (1 / 4)) (Fin 3600)))
                              (Fin 1000)))),
             entryId = id' (read_back (1 / 4) 7),
             entry = Some ((read_back (1 / 4) 7)\<lparr>running_seconds := Some 1000,
                             project_id := r_project_id ?result,
                             task_id := r_task_id ?result\<rparr>)\<rparr>"
  have a: "running_answer ?e = Inr (Some ?result)" by (simp add: world_def reports_def)
  have b: "truthy (r_id ?result)" by (simp add: truthy_def)
  have c: "r_start ?result = Some 1000" by simp
  have d: "read_answer ?e (the (r_id ?result)) = Inr (Some (read_back (1 / 4) 7))"
    by (simp add: world_def)
  have f: "truthy (id' (read_back (1 / 4) 7))" by (simp add: truthy_def read_back_def)
  have h: "unit_amount (read_back (1 / 4) 7) = 1 / 4" by (simp add: read_back_def)
  have st: "state (fst (refreshState ?e ?s)) = fst (forEach (updateCallbacks ?s) ?X)"
    using refreshState_back_computes_startTime[OF a b c d f h, of ?s]
    unfolding Let_def by (rule conjunct1)
  have cb: "fst (forEach (updateCallbacks ?s) ?X) = ?X"
    by (simp add: onStateUpdate_def TimerService_new_def reader_def)
  have n: "real_of_int (now ?e) = 200000" by (simp add: world_def)
  have st': "state (fst (refreshState ?e ?s)) = ?X"
    by (simp only: st cb)
  show ?thesis
    unfolding st' n start_of_exact by simp
qed

text \<open>
  The claim as the specification words it fails. The backend reports 64.4 s and no
  accumulated hours at clock 100000 ms: the start time is 35599 ms, not the 35600 ms that the
  decimal computation gives, nor the exact value for the double 64.4. With \<open>10^20\<close> seconds
  reported the start time is the Invalid Date.
\<close>

theorem refreshState_startTime_not_exact:
  "startTime (state (fst (refreshState (world 100000 0 (reports 7 (lit (644 / 10))))
                            (TimerService_new None)))) = Some (Date 35599) \<and>
   real_of_int 35599 \<noteq> 100000 - (lit (644 / 10) - 0 * 3600) * 1000 \<and>
   real_of_int 35599 \<noteq> 100000 - (644 / 10 - 0 * 3600) * 1000 \<and>
   startTime (state (fst (refreshState (world 100000 0 (reports 7 (10 ^ 20)))
                            (TimerService_new None)))) = Some Invalid_Date"
proof -
  have i: "(7::int) \<noteq> 0" by simp
  have a: "startTime (state (fst (refreshState (world 100000 0 (reports 7 (lit (644 / 10))))
                            (TimerService_new None)))) = Some (Date 35599)"
    unfolding refresh_world(2)[OF i observed_new] of_int_numeral start_of_64_4 by simp
  have b: "startTime (state (fst (refreshState (world 100000 0 (reports 7 (10 ^ 20)))
                            (TimerService_new None)))) = Some Invalid_Date"
    unfolding refresh_world(2)[OF i observed_new] of_int_numeral start_of_huge by simp
  have c: "real_of_int 35599 \<noteq> 100000 - (lit (644 / 10) - 0 * 3600) * 1000"
    unfolding lit_64_4 by simp
  have d: "real_of_int 35599 \<noteq> 100000 - (644 / 10 - 0 * 3600) * 1000"
    by simp
  show ?thesis using a b c d by blast
qed







subsection \<open>The discrepancy note\<close>

lemma forEach_no_note: "\<not> list_ex note_of (snd (forEach cbs st))"
  by (induction cbs arbitrary: st) (simp_all add: prod.case_eq_if note_of_def)

lemma notify_no_note: "\<not> list_ex note_of (snd (notifyStateUpdate s))"
  by (simp add: notifyStateUpdate_def prod.case_eq_if forEach_no_note)

lemma clearState_no_note: "\<not> list_ex note_of (snd (clearState s))"
  by (simp add: clearState_def note_of_def split: option.splits)

lemma note_of_stop_message:
  "note_of (Shown (stop_message entryName duration actualElapsed)) \<longleftrightarrow>
     0 < duration \<and> js_gt actualElapsed (Fin 0) \<and>
     js_gt (js_abs (js_minus (Fin duration) actualElapsed)) (double (1 / 10))"
  by (simp add: note_of_def stop_message_def)

lemma stop_events:
  assumes "isRunning (state s)" and "truthy (entryId (state s))"
    and "timer_stop_answer e (the (entryId (state s))) False = Inr ok"
    and "read_answer e (the (entryId (state s))) = Inr updatedEntry"
  shows "returned (stopTimer e s)"
    and "note_produced (events (stopTimer e s)) \<longleftrightarrow>
         note_of (Shown (stop_message
            (case entry (state s) of None \<Rightarrow> ''Timer''
             | Some en \<Rightarrow> if name en = [] then ''Timer'' else name en)
            (case updatedEntry of None \<Rightarrow> 0 | Some en \<Rightarrow> unit_amount en)
            (getElapsedHours e s)))"
proof -
  show "returned (stopTimer e s)"
    using assms
    by (simp add: stopTimer_def getTimesheetEntry_def Let_def prod.case_eq_if)
  have n: "\<not> note_of (Remote c)" for c by (simp add: note_of_def)
  show "note_produced (events (stopTimer e s)) \<longleftrightarrow>
         note_of (Shown (stop_message
            (case entry (state s) of None \<Rightarrow> ''Timer''
             | Some en \<Rightarrow> if name en = [] then ''Timer'' else name en)
            (case updatedEntry of None \<Rightarrow> 0 | Some en \<Rightarrow> unit_amount en)
            (getElapsedHours e s)))"
    using assms
    by (simp add: stopTimer_def getTimesheetEntry_def Let_def prod.case_eq_if
                  note_produced_def notify_no_note clearState_no_note n)
qed

text \<open>Stopping the engine \<open>tracking\<close>, started at clock 1000 ms, in the worlds of the examples.\<close>

lemma stop_world:
  "returned (stopTimer (world t h (Inr None)) tracking)"
  "note_produced (events (stopTimer (world t h (Inr None)) tracking)) \<longleftrightarrow>
     0 < h \<and> js_gt (getElapsedHours (world t h (Inr None)) tracking) (Fin 0) \<and>
     js_gt (js_abs (js_minus (Fin h) (getElapsedHours (world t h (Inr None)) tracking)))
       (double (1 / 10))"
proof -
  let ?e = "world t h (Inr None)"
  have a: "isRunning (state tracking)" by (simp add: tracking_def)
  have b: "truthy (entryId (state tracking))" by (simp add: tracking_def truthy_def)
  have c: "timer_stop_answer ?e (the (entryId (state tracking))) False = Inr True"
    by (simp add: world_def)
  have d: "read_answer ?e (the (entryId (state tracking))) = Inr (Some (read_back h 42))"
    by (simp add: world_def tracking_def)
  show "returned (stopTimer ?e tracking)" by (rule stop_events(1)[OF a b c d])
  show "note_produced (events (stopTimer ?e tracking)) \<longleftrightarrow>
     0 < h \<and> js_gt (getElapsedHours ?e tracking) (Fin 0) \<and>
     js_gt (js_abs (js_minus (Fin h) (getElapsedHours ?e tracking))) (double (1 / 10))"
    unfolding stop_events(2)[OF a b c d] note_of_stop_message
    by (simp add: read_back_def)
qed

lemma tenth: "double (1 / 10) = Fin (3602879701896397 / 2 ^ 55)"
  by (simp add: double_normal[where k = "- 4"] round_even_def powr_neg_numeral)

lemma lit_0_4: "lit (4 / 10) = 3602879701896397 / 2 ^ 53"
  by (simp add: lit_def double_normal[where k = "- 2"] round_even_def powr_neg_numeral)

lemma lit_0_2: "lit (2 / 10) = 3602879701896397 / 2 ^ 54"
  by (simp add: lit_def double_normal[where k = "- 3"] round_even_def powr_neg_numeral)

lemma lit_0_0167: "lit (167 / 10000) = 2406723640866793 / 2 ^ 57"
  by (simp add: lit_def double_normal[where k = "- 6"] round_even_def powr_neg_numeral)

lemma elapsed_one_minute:
  "getElapsedHours (world 61000 h r) tracking = Fin (4803839602528529 / 2 ^ 58)"
  by (simp add: getElapsedHours_def world_def tracking_def Date_now_def
                double_normal[where k = 15] double_normal[where k = "- 6"]
                round_even_def powr_neg_numeral)

lemma elapsed_one_hour:
  "getElapsedHours (world 3601000 h r) tracking = Fin 1"
  by (simp add: getElapsedHours_def world_def tracking_def Date_now_def
                double_normal[where k = 21] double_normal[where k = 0]
                round_even_def powr_neg_numeral)

lemma elapsed_18_minutes:
  "getElapsedHours (world 1081000 h r) tracking = Fin (5404319552844595 / 2 ^ 54)"
  by (simp add: getElapsedHours_def world_def tracking_def Date_now_def
                double_normal[where k = 20] double_normal[where k = "- 2"]
                round_even_def powr_neg_numeral)

lemma elapsed_6_minutes:
  "getElapsedHours (world 361000 h r) tracking = Fin (3602879701896397 / 2 ^ 55)"
  by (simp add: getElapsedHours_def world_def tracking_def Date_now_def
                double_normal[where k = 18] double_normal[where k = "- 4"]
                round_even_def powr_neg_numeral)

lemma elapsed_40_seconds:
  "getElapsedHours (world 41000 h r) tracking = Fin (6405119470038039 / 2 ^ 59)"
  by (simp add: getElapsedHours_def world_def tracking_def Date_now_def
                double_normal[where k = 15] double_normal[where k = "- 7"]
                round_even_def powr_neg_numeral)

text \<open>
  C6, as the code has it. After a successful stop that reads the record back, the message
  carries the discrepancy note exactly when the duration the server reports is positive, the
  locally elapsed hours are positive, and the double nearest to their difference is, in
  absolute value, above the double nearest to 0.1.
\<close>

theorem stopTimer_discrepancy_note:
  assumes "isRunning (state s)" and "truthy (entryId (state s))"
    and "timer_stop_answer e (the (entryId (state s))) False = Inr ok"
    and "read_answer e (the (entryId (state s))) = Inr (Some updatedEntry)"
  shows "returned (stopTimer e s) \<and>
         (note_produced (events (stopTimer e s)) \<longleftrightarrow>
            0 < unit_amount updatedEntry \<and> js_gt (getElapsedHours e s) (Fin 0) \<and>
            js_gt (js_abs (js_minus (Fin (unit_amount updatedEntry)) (getElapsedHours e s)))
              (double (1 / 10)))"
  using stop_events[OF assms]
  by (simp add: note_of_stop_message)

text \<open>
  The second scenario of the specification: the server reports 0.5 h for a timer that ran
  one minute, and the note is produced.
\<close>

theorem stopTimer_discrepancy_note_witness:
  "returned (stopTimer (world 61000 (1 / 2) (Inr None)) tracking) \<and>
   getElapsedHours (world 61000 (1 / 2) (Inr None)) tracking = Fin (4803839602528529 / 2 ^ 58) \<and>
   note_produced (events (stopTimer (world 61000 (1 / 2) (Inr None)) tracking))"
proof -
  let ?e = "world 61000 (1 / 2) (Inr None)"
  have a: "isRunning (state tracking)" by (simp add: tracking_def)
  have b: "truthy (entryId (state tracking))" by (simp add: tracking_def truthy_def)
  have c: "timer_stop_answer ?e (the (entryId (state tracking))) False = Inr True"
    by (simp add: world_def)
  have d: "read_answer ?e (the (entryId (state tracking))) = Inr (Some (read_back (1 / 2) 42))"
    by (simp add: world_def tracking_def)
  have el: "getElapsedHours ?e tracking = Fin (4803839602528529 / 2 ^ 58)"
    by (rule elapsed_one_minute)
  have h: "unit_amount (read_back (1 / 2) 42) = 1 / 2" by (simp add: read_back_def)
  have rhs: "0 < unit_amount (read_back (1 / 2) 42) \<and> js_gt (getElapsedHours ?e tracking) (Fin 0) \<and>
             js_gt (js_abs (js_minus (Fin (unit_amount (read_back (1 / 2) 42)))
                                     (getElapsedHours ?e tracking))) (double (1 / 10))"
    unfolding el h tenth
    by (simp add: double_normal[where k = "- 2"] round_even_def powr_neg_numeral)
  show ?thesis
    using stopTimer_discrepancy_note[OF a b c d] rhs el by blast
qed

text \<open>
  The claim as the specification words it fails, in both directions. The timer ran a full
  hour and the server reports 0 hours: the difference is 1 hour and no note is produced.
  The server reports 0.4 h and the timer ran 18 minutes: the difference of the two decimal
  numbers is 0.1 h, which does not exceed the tolerance, and the note is produced. The
  server reports 0.2 h and the timer ran 6 minutes: the double 0.2 is more than 0.1 above
  the elapsed 0.1 h, and no note is produced.
\<close>

theorem stopTimer_note_not_by_difference:
  "returned (stopTimer (world 3601000 0 (Inr None)) tracking) \<and>
   js_gt (js_abs (js_minus (Fin (unit_amount (read_back 0 42)))
                    (getElapsedHours (world 3601000 0 (Inr None)) tracking))) (double (1 / 10)) \<and>
   \<not> note_produced (events (stopTimer (world 3601000 0 (Inr None)) tracking)) \<and>
   returned (stopTimer (world 1081000 (lit (4 / 10)) (Inr None)) tracking) \<and>
   \<not> (1 / 10 < \<bar>4 / 10 - (1081000 - 1000) / (1000 * 60 * 60 :: real)\<bar>) \<and>
   note_produced (events (stopTimer (world 1081000 (lit (4 / 10)) (Inr None)) tracking)) \<and>
   returned (stopTimer (world 361000 (lit (2 / 10)) (Inr None)) tracking) \<and>
   1 / 10 < \<bar>lit (2 / 10) - (361000 - 1000) / (1000 * 60 * 60)\<bar> \<and>
   \<not> note_produced (events (stopTimer (world 361000 (lit (2 / 10)) (Inr None)) tracking))"
proof -
  have a1: "js_gt (js_abs (js_minus (Fin (unit_amount (read_back 0 42)))
                    (getElapsedHours (world 3601000 0 (Inr None)) tracking))) (double (1 / 10))"
    unfolding elapsed_one_hour tenth
    by (simp add: read_back_def double_normal[where k = 0] round_even_def powr_neg_numeral)
  have a2: "\<not> note_produced (events (stopTimer (world 3601000 0 (Inr None)) tracking))"
    unfolding stop_world(2) by simp
  have b1: "\<not> (1 / 10 < \<bar>4 / 10 - (1081000 - 1000) / (1000 * 60 * 60 :: real)\<bar>)"
    by simp
  have b2: "note_produced (events (stopTimer (world 1081000 (lit (4 / 10)) (Inr None)) tracking))"
    unfolding stop_world(2) elapsed_18_minutes tenth lit_0_4
    by (simp add: double_normal[where k = "- 4"] round_even_def powr_neg_numeral)
  have c1: "1 / 10 < \<bar>lit (2 / 10) - (361000 - 1000) / (1000 * 60 * 60)\<bar>"
    unfolding lit_0_2 by simp
  have c2: "\<not> note_produced (events (stopTimer (world 361000 (lit (2 / 10)) (Inr None)) tracking))"
    unfolding stop_world(2) elapsed_6_minutes tenth lit_0_2
    by (simp add: double_normal[where k = "- 4"] round_even_def powr_neg_numeral)
  show ?thesis
    using stop_world(1) a1 a2 b1 b2 c1 c2 by blast
qed

text \<open>
  The first scenario of the specification: stop 40 s after the start with 0.0167 h reported.
  The difference is below the tolerance and the message carries no note.
\<close>

lemma stopTimer_forty_seconds:
  "returned (stopTimer (world 41000 (lit (167 / 10000)) (Inr None)) tracking) \<and>
   getElapsedHours (world 41000 (lit (167 / 10000)) (Inr None)) tracking =
     Fin (6405119470038039 / 2 ^ 59) \<and>
   \<not> note_produced (events (stopTimer (world 41000 (lit (167 / 10000)) (Inr None)) tracking))"
proof -
  have n: "\<not> note_produced (events (stopTimer (world 41000 (lit (167 / 10000)) (Inr None)) tracking))"
    unfolding stop_world(2) elapsed_40_seconds tenth lit_0_0167
    by (simp add: double_normal[where k = "- 8"] round_even_def powr_neg_numeral)
  show ?thesis
    using stop_world(1) elapsed_40_seconds n by blast
qed

subsection \<open>Round trip through the persisted snapshot\<close>

lemma startTimer_succeeds:
  assumes "\<not> isRunning (state s)" and "observed s" and "session e = Some sess"
    and "create_answer e (create_values (new_entry e nm projectId taskId sess)) = Inr i"
    and "timer_start_answer e i = Inr ok"
  shows "returned (startTimer e nm projectId taskId s)"
    and "state (service (startTimer e nm projectId taskId s)) =
           \<lparr>isRunning = True, startTime = Some (Date (now e)), entryId = Some i,
            entry = Some ((new_entry e nm projectId taskId sess)\<lparr>id' := Some i\<rparr>)\<rparr>"
    and "context' (service (startTimer e nm projectId taskId s)) =
           map_option (update ''timer_entryId'' (Some (SNum i))) (context' s)"
    and "pending (service (startTimer e nm projectId taskId s)) =
           (if context' s = None then pending s else pending s @ [Saving 0])"
proof -
  let ?st = "\<lparr>isRunning = True, startTime = Some (Date (now e)), entryId = Some i,
              entry = Some ((new_entry e nm projectId taskId sess)\<lparr>id' := Some i\<rparr>)\<rparr>"
  let ?s2 = "startUpdateInterval (fst (saveState (s\<lparr>state := ?st\<rparr>)))"
  have r: "startTimer e nm projectId taskId s =
             \<lparr>returned = True, service = fst (notifyStateUpdate ?s2),
              events = snd (createTimesheetEntry e (new_entry e nm projectId taskId sess))
                       @ [Remote (ActionTimerStart i)] @ snd (saveState (s\<lparr>state := ?st\<rparr>))
                       @ snd (notifyStateUpdate ?s2)\<rparr>"
    using assms(1,3,4,5)
    by (simp add: startTimer_def createTimesheetEntry_def Let_def prod.case_eq_if)
  show "returned (startTimer e nm projectId taskId s)" by (simp add: r)
  show "state (service (startTimer e nm projectId taskId s)) = ?st"
    by (simp add: r installed[OF assms(2)])
  have f: "field_value ?st ''timer_entryId'' = Some (SNum i)"
    by (simp add: field_value_def)
  show "context' (service (startTimer e nm projectId taskId s)) =
           map_option (update ''timer_entryId'' (Some (SNum i))) (context' s)"
    by (simp add: r notifyStateUpdate_frame startUpdateInterval_frame saveState_store f)
  show "pending (service (startTimer e nm projectId taskId s)) =
           (if context' s = None then pending s else pending s @ [Saving 0])"
    by (simp add: r notifyStateUpdate_frame startUpdateInterval_frame saveState_store)
qed

lemma loadState_restores:
  assumes "context' s = Some m" and "observed s"
    and "get_number m ''timer_entryId'' = Some i" and "i \<noteq> 0"
    and "get_number m ''timer_startTime'' = Some t" and "t \<noteq> 0"
    and "fst (getRunningTimer e) = Inr (Some rt)" and "id' rt = Some i"
  shows "returned (loadState e s)"
    and "state (service (loadState e s)) =
           \<lparr>isRunning = True, startTime = Some (new_Date (Fin (real_of_int t))), entryId = Some i,
            entry = Some \<lparr>id' = Some i,
                          name = (case get_string m ''timer_description'' of None \<Rightarrow> [] | Some d \<Rightarrow> d),
                          date = today e, unit_amount = 0,
                          project_id = get_number m ''timer_projectId'',
                          task_id = get_number m ''timer_taskId'',
                          employee_id = None, account_id = None,
                          user_id = None, running_seconds = None\<rparr>\<rparr>"
proof -
  obtain evs where g: "getRunningTimer e = (Inr (Some rt), evs)"
    using assms(7) by (cases "getRunningTimer e") simp
  show "returned (loadState e s)"
    using assms(1,3,4,5,6,8)
    by (simp add: loadState_def g Let_def prod.case_eq_if truthy_def)
  show "state (service (loadState e s)) =
           \<lparr>isRunning = True, startTime = Some (new_Date (Fin (real_of_int t))), entryId = Some i,
            entry = Some \<lparr>id' = Some i,
                          name = (case get_string m ''timer_description'' of None \<Rightarrow> [] | Some d \<Rightarrow> d),
                          date = today e, unit_amount = 0,
                          project_id = get_number m ''timer_projectId'',
                          task_id = get_number m ''timer_taskId'',
                          employee_id = None, account_id = None,
                          user_id = None, running_seconds = None\<rparr>\<rparr>"
    using assms(1,3,4,5,6,8)
    by (simp add: loadState_def g Let_def prod.case_eq_if truthy_def restored[OF assms(2)])
qed

text \<open>The store once the writes of a \<open>saveState\<close> that was started last are all done.\<close>

lemma settle_saved:
  assumes "context' s = Some m" and "pending s = js @ [Saving 0]"
  obtains M where "context' (settle s) = Some M"
    and "M ''timer_entryId'' = m ''timer_entryId''"
    and "M ''timer_startTime'' = field_value (state s) ''timer_startTime''"
    and "M ''timer_projectId'' = field_value (state s) ''timer_projectId''"
    and "M ''timer_taskId'' = field_value (state s) ''timer_taskId''"
    and "M ''timer_description'' = field_value (state s) ''timer_description''"
proof
  let ?M = "fold (run_job (state s)) (js @ [Saving 0]) m"
  show "context' (settle s) = Some ?M" by (simp add: settle_def assms)
  show "?M ''timer_entryId'' = m ''timer_entryId''" by (rule jobs_keep_first_key)
  show "?M ''timer_startTime'' = field_value (state s) ''timer_startTime''"
    by (simp add: run_job_eq timer_keys_def)
  show "?M ''timer_projectId'' = field_value (state s) ''timer_projectId''"
    by (simp add: run_job_eq timer_keys_def)
  show "?M ''timer_taskId'' = field_value (state s) ''timer_taskId''"
    by (simp add: run_job_eq timer_keys_def)
  show "?M ''timer_description'' = field_value (state s) ''timer_description''"
    by (simp add: run_job_eq timer_keys_def)
qed

lemma get_number_SNum: "m key = map_option SNum v \<Longrightarrow> get_number m key = v"
  by (cases v) (simp_all add: get_number_def)

text \<open>
  C5, as the code has it. A successful \<open>startTimer\<close> with description \<open>nm\<close>, project
  \<open>projectId\<close> and task \<open>taskId\<close> on an engine with a workspace store, in front of observers
  that only read, installs a running state and starts the writes of the snapshot without
  waiting for them. Once these writes are done, the persisted start time is the clock reading
  of the start, and \<open>loadState\<close> on a fresh engine over the store (the restart), with the
  backend reporting the same record as running, returns \<open>true\<close> and installs a running state
  with the same entry id, the date of the persisted start time (not a recomputed one), and the
  same project, task and description. The record id and the clock reading are not zero:
  \<open>loadState\<close> tests both for truthiness.
\<close>

theorem start_load_round_trip:
  assumes "\<not> isRunning (state s)" and "context' s = Some m"
    and "\<forall>cb\<in>set (updateCallbacks s). read_only cb"
    and "session e = Some sess"
    and "create_answer e (create_values (new_entry e nm projectId taskId sess)) = Inr i"
    and "timer_start_answer e i = Inr ok"
    and "i \<noteq> 0" and "now e \<noteq> 0"
    and "fst (getRunningTimer e') = Inr (Some rt)" and "id' rt = Some i"
  shows "returned (startTimer e nm projectId taskId s) \<and>
         isRunning (state (service (startTimer e nm projectId taskId s))) \<and>
         map_option (\<lambda>store. store ''timer_startTime'')
             (context' (settle (service (startTimer e nm projectId taskId s))))
           = Some (Some (SNum (now e))) \<and>
         returned (loadState e' (TimerService_new (context' (settle (service (startTimer e nm projectId taskId s)))))) \<and>
         isRunning (state (service (loadState e' (TimerService_new (context' (settle (service (startTimer e nm projectId taskId s)))))))) \<and>
         entryId (state (service (loadState e' (TimerService_new (context' (settle (service (startTimer e nm projectId taskId s))))))))
           = entryId (state (service (startTimer e nm projectId taskId s))) \<and>
         entryId (state (service (loadState e' (TimerService_new (context' (settle (service (startTimer e nm projectId taskId s))))))))
           = Some i \<and>
         startTime (state (service (loadState e' (TimerService_new (context' (settle (service (startTimer e nm projectId taskId s))))))))
           = Some (new_Date (Fin (real_of_int (now e)))) \<and>
         map_option project_id (entry (state (service (loadState e' (TimerService_new (context' (settle (service (startTimer e nm projectId taskId s)))))))))
           = Some projectId \<and>
         map_option task_id (entry (state (service (loadState e' (TimerService_new (context' (settle (service (startTimer e nm projectId taskId s)))))))))
           = Some taskId \<and>
         map_option name (entry (state (service (loadState e' (TimerService_new (context' (settle (service (startTimer e nm projectId taskId s)))))))))
           = Some nm"
proof -
  let ?en = "(new_entry e nm projectId taskId sess)\<lparr>id' := Some i\<rparr>"
  let ?st = "\<lparr>isRunning = True, startTime = Some (Date (now e)), entryId = Some i,
              entry = Some ?en\<rparr>"
  let ?S = "service (startTimer e nm projectId taskId s)"
  have o: "observed s" using assms(3) by (simp add: observed_def)
  note started = startTimer_succeeds[OF assms(1) o assms(4,5,6)]
  have ctx: "context' ?S = Some (update ''timer_entryId'' (Some (SNum i)) m)"
    by (simp add: started(3) assms(2))
  have pen: "pending ?S = pending s @ [Saving 0]"
    by (simp add: started(4) assms(2))
  obtain M where M: "context' (settle ?S) = Some M"
      "M ''timer_entryId'' = update ''timer_entryId'' (Some (SNum i)) m ''timer_entryId''"
      "M ''timer_startTime'' = field_value (state ?S) ''timer_startTime''"
      "M ''timer_projectId'' = field_value (state ?S) ''timer_projectId''"
      "M ''timer_taskId'' = field_value (state ?S) ''timer_taskId''"
      "M ''timer_description'' = field_value (state ?S) ''timer_description''"
    using settle_saved[OF ctx pen] by blast
  have k1: "get_number M ''timer_entryId'' = Some i"
    by (simp add: get_number_def M(2) update_def)
  have k2: "M ''timer_startTime'' = Some (SNum (now e))"
    by (simp add: M(3) started(2) field_value_def stored_time_def)
  have k2': "get_number M ''timer_startTime'' = Some (now e)"
    by (simp add: get_number_def k2)
  have k3: "get_number M ''timer_projectId'' = projectId"
    by (rule get_number_SNum) (simp add: M(4) started(2) field_value_def new_entry_def)
  have k4: "get_number M ''timer_taskId'' = taskId"
    by (rule get_number_SNum) (simp add: M(5) started(2) field_value_def new_entry_def)
  have k5: "get_string M ''timer_description'' = Some nm"
    by (simp add: get_string_def M(6) started(2) field_value_def new_entry_def)
  have c: "context' (TimerService_new (Some M)) = Some M"
    by (simp add: TimerService_new_def)
  note loaded = loadState_restores[OF c observed_new k1 assms(7) k2' assms(8,9,10)]
  show ?thesis
    unfolding M(1)
    by (simp add: started(1,2) loaded k2 k3 k4 k5)
qed

text \<open>
  \<^verbatim>\<open>start("Task A", 5, 10)\<close> at clock 1000 creates record 42; the writes are done; after the
  restart the backend reports record 42 as running and \<open>loadState\<close> restores entry 42, start
  time 1000, project 5 and task 10.
\<close>

theorem start_load_round_trip_witness:
  "returned (loadState (world 9000 0 (reports 42 8))
       (TimerService_new (context' (settle (service
          (startTimer (world 1000 0 (Inr None)) ''Task A'' (Some 5) (Some 10)
             (onStateUpdate reader (TimerService_new (Some Map.empty))))))))) \<and>
   entryId (state (service (loadState (world 9000 0 (reports 42 8))
       (TimerService_new (context' (settle (service
          (startTimer (world 1000 0 (Inr None)) ''Task A'' (Some 5) (Some 10)
             (onStateUpdate reader (TimerService_new (Some Map.empty))))))))))) = Some 42 \<and>
   startTime (state (service (loadState (world 9000 0 (reports 42 8))
       (TimerService_new (context' (settle (service
          (startTimer (world 1000 0 (Inr None)) ''Task A'' (Some 5) (Some 10)
             (onStateUpdate reader (TimerService_new (Some Map.empty))))))))))) = Some (Date 1000) \<and>
   startTime (state (service
          (startTimer (world 1000 0 (Inr None)) ''Task A'' (Some 5) (Some 10)
             (onStateUpdate reader (TimerService_new (Some Map.empty)))))) = Some (Date 1000) \<and>
   map_option project_id (entry (state (service (loadState (world 9000 0 (reports 42 8))
       (TimerService_new (context' (settle (service
          (startTimer (world 1000 0 (Inr None)) ''Task A'' (Some 5) (Some 10)
             (onStateUpdate reader (TimerService_new (Some Map.empty)))))))))))) = Some (Some 5) \<and>
   map_option task_id (entry (state (service (loadState (world 9000 0 (reports 42 8))
       (TimerService_new (context' (settle (service
          (startTimer (world 1000 0 (Inr None)) ''Task A'' (Some 5) (Some 10)
             (onStateUpdate reader (TimerService_new (Some Map.empty)))))))))))) = Some (Some 10)"
proof -
  let ?e = "world 1000 0 (Inr None)"
  let ?e' = "world 9000 0 (reports 42 8)"
  let ?s = "onStateUpdate reader (TimerService_new (Some Map.empty))"
  let ?rt = "(read_back 0 42)\<lparr>running_seconds := Some 8, project_id := Some 5, task_id := Some 10\<rparr>"
  have a: "\<not> isRunning (state ?s)"
    by (simp add: TimerService_new_def onStateUpdate_def stopped_def)
  have b: "context' ?s = Some Map.empty" by (simp add: TimerService_new_def onStateUpdate_def)
  have c: "\<forall>cb\<in>set (updateCallbacks ?s). read_only cb"
    by (simp add: TimerService_new_def onStateUpdate_def read_only_reader)
  have d: "session ?e = Some \<lparr>uid = 2\<rparr>" by (simp add: world_def)
  have f: "create_answer ?e (create_values (new_entry ?e ''Task A'' (Some 5) (Some 10) \<lparr>uid = 2\<rparr>)) = Inr 42"
    by (simp add: world_def)
  have g: "timer_start_answer ?e 42 = Inr True" by (simp add: world_def)
  have h: "(42::int) \<noteq> 0" by simp
  have k: "now ?e \<noteq> 0" by (simp add: world_def)
  have l: "fst (getRunningTimer ?e') = Inr (Some ?rt)"
    by (simp add: getRunningTimer_def getTimesheetEntry_def world_def reports_def truthy_def)
  have n: "id' ?rt = Some 42" by (simp add: read_back_def)
  have w: "new_Date (Fin (real_of_int (now ?e))) = Date 1000" by (simp add: world_def)
  have o: "observed ?s" using c by (simp add: observed_def)
  have st: "startTime (state (service (startTimer ?e ''Task A'' (Some 5) (Some 10) ?s))) =
              Some (Date 1000)"
    unfolding startTimer_succeeds(2)[OF a o d f g] by (simp add: world_def)
  show ?thesis
    using start_load_round_trip[OF a b c d f g h k l n] st unfolding w by blast
qed

text \<open>
  The claim as the specification words it fails. \<^verbatim>\<open>start("Task A", 5, 10)\<close> at clock 1000
  creates record 42 and returns; the backend reports record 42 as running.
  A restart at that moment finds only the entry id in the store, and \<open>loadState\<close> restores
  nothing; after one more write it restores a state without project and task.
  With an observer that writes project 7 into the entry it is handed, the restored project
  is 7. A start at clock 0, or of a record with id 0, is not restored either.
\<close>

theorem start_load_round_trip_fails:
  "returned (startTimer (world 1000 0 (Inr None)) ''Task A'' (Some 5) (Some 10)
               (TimerService_new (Some Map.empty))) \<and>
   returned (loadState (world 9000 0 (reports 42 8))
       (TimerService_new (context' (service
          (startTimer (world 1000 0 (Inr None)) ''Task A'' (Some 5) (Some 10)
             (TimerService_new (Some Map.empty))))))) = False \<and>
   returned (loadState (world 9000 0 (reports 42 8))
       (TimerService_new (context' (resume (service
          (startTimer (world 1000 0 (Inr None)) ''Task A'' (Some 5) (Some 10)
             (TimerService_new (Some Map.empty)))))))) \<and>
   map_option project_id (entry (state (service (loadState (world 9000 0 (reports 42 8))
       (TimerService_new (context' (resume (service
          (startTimer (world 1000 0 (Inr None)) ''Task A'' (Some 5) (Some 10)
             (TimerService_new (Some Map.empty))))))))))) = Some None \<and>
   map_option task_id (entry (state (service (loadState (world 9000 0 (reports 42 8))
       (TimerService_new (context' (resume (service
          (startTimer (world 1000 0 (Inr None)) ''Task A'' (Some 5) (Some 10)
             (TimerService_new (Some Map.empty))))))))))) = Some None \<and>
   returned (loadState (world 9000 0 (reports 42 8))
       (TimerService_new (context' (settle (service
          (startTimer (world 1000 0 (Inr None)) ''Task A'' (Some 5) (Some 10)
             (onStateUpdate retagger (TimerService_new (Some Map.empty))))))))) \<and>
   map_option project_id (entry (state (service (loadState (world 9000 0 (reports 42 8))
       (TimerService_new (context' (settle (service
          (startTimer (world 1000 0 (Inr None)) ''Task A'' (Some 5) (Some 10)
             (onStateUpdate retagger (TimerService_new (Some Map.empty)))))))))))) = Some (Some 7) \<and>
   returned (startTimer (world 0 0 (Inr None)) ''Task A'' (Some 5) (Some 10)
               (TimerService_new (Some Map.empty))) \<and>
   returned (loadState (world 9000 0 (reports 42 8))
       (TimerService_new (context' (settle (service
          (startTimer (world 0 0 (Inr None)) ''Task A'' (Some 5) (Some 10)
             (TimerService_new (Some Map.empty)))))))) = False \<and>
   returned (startTimer ((world 1000 0 (Inr None))\<lparr>create_answer := \<lambda>_. Inr 0\<rparr>)
               ''Task A'' (Some 5) (Some 10) (TimerService_new (Some Map.empty))) \<and>
   returned (loadState (world 9000 0 (reports 0 8))
       (TimerService_new (context' (settle (service
          (startTimer ((world 1000 0 (Inr None))\<lparr>create_answer := \<lambda>_. Inr 0\<rparr>)
             ''Task A'' (Some 5) (Some 10) (TimerService_new (Some Map.empty)))))))) = False"
proof -
  let ?e' = "world 9000 0 (reports 42 8)"
  let ?rt = "(read_back 0 42)\<lparr>running_seconds := Some 8, project_id := Some 5, task_id := Some 10\<rparr>"
  have l: "getRunningTimer ?e' = (Inr (Some ?rt), [Remote GetRunningTimer, Remote (ReadEntry 42)])"
    by (simp add: getRunningTimer_def getTimesheetEntry_def world_def reports_def truthy_def)
  have l0: "getRunningTimer (world 9000 0 (reports 0 8)) = (Inr None, [Remote GetRunningTimer])"
    by (simp add: getRunningTimer_def getTimesheetEntry_def world_def reports_def truthy_def)
  have start:
    "service (startTimer (world t 0 (Inr None)) ''Task A'' (Some 5) (Some 10)
                (TimerService_new (Some Map.empty))) =
       \<lparr>state = \<lparr>isRunning = True, startTime = Some (Date t), entryId = Some 42,
                 entry = Some \<lparr>id' = Some 42, name = ''Task A'', date = ''2024-01-01'',
                               unit_amount = 0, project_id = Some 5, task_id = Some 10,
                               employee_id = None, account_id = None, user_id = Some 2,
                               running_seconds = None\<rparr>\<rparr>,
        updateCallbacks = [], intervalId = Some Timeout,
        context' = Some [''timer_entryId'' \<mapsto> SNum 42], pending = [Saving 0]\<rparr>" for t
    by (simp add: startTimer_def world_def TimerService_new_def stopped_def new_entry_def
                  createTimesheetEntry_def saveState_def startUpdateInterval_def
                  stopUpdateInterval_def notifyStateUpdate_def field_value_def update_def Let_def)
  have retag:
    "service (startTimer (world 1000 0 (Inr None)) ''Task A'' (Some 5) (Some 10)
                (onStateUpdate retagger (TimerService_new (Some Map.empty)))) =
       \<lparr>state = \<lparr>isRunning = True, startTime = Some (Date 1000), entryId = Some 42,
                 entry = Some \<lparr>id' = Some 42, name = ''Task A'', date = ''2024-01-01'',
                               unit_amount = 0, project_id = Some 7, task_id = Some 10,
                               employee_id = None, account_id = None, user_id = Some 2,
                               running_seconds = None\<rparr>\<rparr>,
        updateCallbacks = [retagger], intervalId = Some Timeout,
        context' = Some [''timer_entryId'' \<mapsto> SNum 42], pending = [Saving 0]\<rparr>"
    by (simp add: startTimer_def world_def TimerService_new_def onStateUpdate_def stopped_def
                  new_entry_def createTimesheetEntry_def saveState_def startUpdateInterval_def
                  stopUpdateInterval_def notifyStateUpdate_def field_value_def update_def
                  retagger_def Let_def)
  have zero:
    "service (startTimer ((world 1000 0 (Inr None))\<lparr>create_answer := \<lambda>_. Inr 0\<rparr>)
                ''Task A'' (Some 5) (Some 10) (TimerService_new (Some Map.empty))) =
       \<lparr>state = \<lparr>isRunning = True, startTime = Some (Date 1000), entryId = Some 0,
                 entry = Some \<lparr>id' = Some 0, name = ''Task A'', date = ''2024-01-01'',
                               unit_amount = 0, project_id = Some 5, task_id = Some 10,
                               employee_id = None, account_id = None, user_id = Some 2,
                               running_seconds = None\<rparr>\<rparr>,
        updateCallbacks = [], intervalId = Some Timeout,
        context' = Some [''timer_entryId'' \<mapsto> SNum 0], pending = [Saving 0]\<rparr>"
    by (simp add: startTimer_def world_def TimerService_new_def stopped_def new_entry_def
                  createTimesheetEntry_def saveState_def startUpdateInterval_def
                  stopUpdateInterval_def notifyStateUpdate_def field_value_def update_def Let_def)
  have p0: "returned (startTimer (world t 0 (Inr None)) ''Task A'' (Some 5) (Some 10)
               (TimerService_new (Some Map.empty)))" for t
    by (simp add: startTimer_def world_def TimerService_new_def stopped_def
                  createTimesheetEntry_def prod.case_eq_if Let_def)
  have p0': "returned (startTimer ((world 1000 0 (Inr None))\<lparr>create_answer := \<lambda>_. Inr 0\<rparr>)
               ''Task A'' (Some 5) (Some 10) (TimerService_new (Some Map.empty)))"
    by (simp add: startTimer_def world_def TimerService_new_def stopped_def
                  createTimesheetEntry_def prod.case_eq_if Let_def)
  have p1: "returned (loadState ?e' (TimerService_new (context' (service
              (startTimer (world 1000 0 (Inr None)) ''Task A'' (Some 5) (Some 10)
                 (TimerService_new (Some Map.empty))))))) = False"
    unfolding start
    by (simp add: loadState_def TimerService_new_def get_number_def truthy_def Let_def)
  have p2: "returned (loadState ?e' (TimerService_new (context' (resume (service
              (startTimer (world 1000 0 (Inr None)) ''Task A'' (Some 5) (Some 10)
                 (TimerService_new (Some Map.empty)))))))) \<and>
            map_option project_id (entry (state (service (loadState ?e'
              (TimerService_new (context' (resume (service
              (startTimer (world 1000 0 (Inr None)) ''Task A'' (Some 5) (Some 10)
                 (TimerService_new (Some Map.empty))))))))))) = Some None \<and>
            map_option task_id (entry (state (service (loadState ?e'
              (TimerService_new (context' (resume (service
              (startTimer (world 1000 0 (Inr None)) ''Task A'' (Some 5) (Some 10)
                 (TimerService_new (Some Map.empty))))))))))) = Some None"
    unfolding start
    by (simp add: loadState_def l TimerService_new_def get_number_def get_string_def truthy_def
                  resume_def timer_keys_def field_value_def stored_time_def update_def
                  read_back_def startUpdateInterval_def stopUpdateInterval_def
                  notifyStateUpdate_def stopped_def Let_def)
  have p3: "returned (loadState ?e' (TimerService_new (context' (settle (service
              (startTimer (world 1000 0 (Inr None)) ''Task A'' (Some 5) (Some 10)
                 (onStateUpdate retagger (TimerService_new (Some Map.empty))))))))) \<and>
            map_option project_id (entry (state (service (loadState ?e'
              (TimerService_new (context' (settle (service
              (startTimer (world 1000 0 (Inr None)) ''Task A'' (Some 5) (Some 10)
                 (onStateUpdate retagger (TimerService_new (Some Map.empty)))))))))))) = Some (Some 7)"
    unfolding retag
    by (simp add: loadState_def l TimerService_new_def get_number_def get_string_def truthy_def
                  settle_def run_job_eq timer_keys_def field_value_def stored_time_def
                  read_back_def startUpdateInterval_def stopUpdateInterval_def
                  notifyStateUpdate_def stopped_def Let_def)
  have p4: "returned (loadState ?e' (TimerService_new (context' (settle (service
              (startTimer (world 0 0 (Inr None)) ''Task A'' (Some 5) (Some 10)
                 (TimerService_new (Some Map.empty)))))))) = False"
    unfolding start
    by (simp add: loadState_def TimerService_new_def get_number_def truthy_def settle_def
                  run_job_eq timer_keys_def field_value_def stored_time_def Let_def)
  have p5: "returned (loadState (world 9000 0 (reports 0 8))
              (TimerService_new (context' (settle (service
                (startTimer ((world 1000 0 (Inr None))\<lparr>create_answer := \<lambda>_. Inr 0\<rparr>)
                  ''Task A'' (Some 5) (Some 10) (TimerService_new (Some Map.empty)))))))) = False"
    unfolding zero
    by (simp add: loadState_def l0 TimerService_new_def get_number_def truthy_def settle_def
                  run_job_eq timer_keys_def field_value_def stored_time_def Let_def)
  show ?thesis
    using p0[of 1000] p0[of 0] p0' p1 p2 p3 p4 p5 by blast
qed

subsection \<open>load on a mismatch and on a failing backend\<close>

lemma loadState_mismatch_changes_nothing:
  assumes "context' s = Some m" and "fst (getRunningTimer e) = Inr rt"
    and "rt = None \<or> id' (the rt) \<noteq> get_number m ''timer_entryId''"
  shows "returned (loadState e s) = False \<and> service (loadState e s) = s \<and>
         written (events (loadState e s)) = []"
proof -
  obtain evs where g: "getRunningTimer e = (Inr rt, evs)"
    using assms(2) by (cases "getRunningTimer e") simp
  have q: "written evs = []"
    using getRunningTimer_quiet[of e] by (simp add: g)
  show ?thesis
    using assms(1,3) q
    by (auto simp: loadState_def g Let_def written_def)
qed

lemma loadState_oracle_failure_clears:
  assumes "context' s = Some m" and "fst (getRunningTimer e) = Inl err"
    and "truthy (get_number m ''timer_entryId'')" and "truthy (get_number m ''timer_startTime'')"
  shows "returned (loadState e s) = False \<and> state (service (loadState e s)) = state s \<and>
         context' (service (loadState e s)) = Some (update ''timer_entryId'' None m) \<and>
         pending (service (loadState e s)) = pending s @ [Clearing 0]"
proof -
  obtain evs where g: "getRunningTimer e = (Inl err, evs)"
    using assms(2) by (cases "getRunningTimer e") simp
  show ?thesis
    using assms(1,3,4)
    by (simp add: loadState_def g Let_def prod.case_eq_if clearState_frame clearState_store)
qed

text \<open>The store once the writes of a \<open>clearState\<close> that was started last are all done.\<close>

lemma settle_cleared:
  assumes "context' s = Some m" and "m ''timer_entryId'' = None" and "pending s = js @ [Clearing 0]"
  obtains M where "context' (settle s) = Some M" and "\<forall>key\<in>set timer_keys. M key = None"
proof
  let ?M = "fold (run_job (state s)) (js @ [Clearing 0]) m"
  show "context' (settle s) = Some ?M" by (simp add: settle_def assms)
  have "?M ''timer_entryId'' = None"
    using jobs_keep_first_key[of "state s" "js @ [Clearing 0]" m] assms(2) by simp
  then show "\<forall>key\<in>set timer_keys. ?M key = None"
    by (simp add: run_job_eq timer_keys_def)
qed

end
